theory Spec2Isabelle
  imports Complex_Main "HOL-Library.Multiset" "HOL-Library.List_Lexorder" "HOL-Library.Char_ord"
begin

section \<open>Data model of MarketSentimentAnalyzer.tsx\<close>

text \<open>
  JavaScript numbers are modelled as real numbers: sums, means and products are the exact
  ones, so rounding of IEEE doubles, NaN and the infinities are outside the model.
  Timestamps and day counts are integers. Strings are \<open>string\<close>; the empty string is
  JavaScript's falsy string.
\<close>

record Sentiment =
  label :: string
  score :: real

record NewsItem =
  datetime :: int
  headline :: string
  source :: string
  url :: string
  sentiment :: "Sentiment option"

record StockQuote =
  quote_c :: real
  quote_h :: real
  quote_l :: real
  quote_o :: real
  quote_pc :: real
  quote_t :: real

record SentimentData =
  date :: string
  avgSentiment :: real
  stockPrice :: real
  volume :: nat

record CompanyWithSentiment =
  symbol :: string
  name :: string
  peer_sentiment :: real
  industry :: string

section \<open>Signed sentiment values\<close>

text \<open>Lines 254-258 (processSentimentData): the nested conditional on the label.\<close>

definition sentiment_val :: "Sentiment \<Rightarrow> real" where
  "sentiment_val s =
     (if label s = ''POSITIVE'' then score s
      else if label s = ''NEGATIVE'' then - score s
      else 0)"

text \<open>
  Lines 455-460 (fetchData) and 340-345 (findCompaniesBetterSentiment): the callback of
  \<open>map\<close>, with its early returns.
\<close>

definition item_sentiment :: "NewsItem \<Rightarrow> real" where
  "item_sentiment item =
     (case sentiment item of
        None \<Rightarrow> 0
      | Some s \<Rightarrow>
          if label s = ''POSITIVE'' then score s
          else if label s = ''NEGATIVE'' then - score s
          else 0)"

text \<open>Lines 462-464 and 347-349: \<open>reduce\<close> over the values, divided by their number.\<close>

definition average :: "real list \<Rightarrow> real" where
  "average sentiments =
     (if length sentiments > 0 then foldl (+) 0 sentiments / real (length sentiments) else 0)"

definition overall_sentiment :: "NewsItem list \<Rightarrow> real" where
  "overall_sentiment newsWithSentiment = average (map item_sentiment newsWithSentiment)"

section \<open>Sorting with a comparator\<close>

text \<open>
  \<open>Array.prototype.sort\<close> is a stable sort: elements the comparator does not separate
  keep their order. It is modelled by insertion from the right, which is stable; for a
  comparator that is a consistent ordering every stable sort gives this result.
\<close>

fun js_insert :: "('a \<Rightarrow> 'a \<Rightarrow> real) \<Rightarrow> 'a \<Rightarrow> 'a list \<Rightarrow> 'a list" where
  "js_insert cmp x [] = [x]"
| "js_insert cmp x (y # ys) = (if cmp x y \<le> 0 then x # y # ys else y # js_insert cmp x ys)"

fun js_sort :: "('a \<Rightarrow> 'a \<Rightarrow> real) \<Rightarrow> 'a list \<Rightarrow> 'a list" where
  "js_sort cmp [] = []"
| "js_sort cmp (x # xs) = js_insert cmp x (js_sort cmp xs)"

section \<open>Peer ranking\<close>

text \<open>Lines 369-374: keep the results above the baseline, sort by highest sentiment.\<close>

definition by_highest_sentiment :: "CompanyWithSentiment \<Rightarrow> CompanyWithSentiment \<Rightarrow> real" where
  "by_highest_sentiment a b = peer_sentiment b - peer_sentiment a"

definition betterSentiment :: "CompanyWithSentiment list \<Rightarrow> real \<Rightarrow> CompanyWithSentiment list" where
  "betterSentiment sentimentResults currentSentimentValue =
     js_sort by_highest_sentiment
       (filter (\<lambda>item. peer_sentiment item > currentSentimentValue) sentimentResults)"

section \<open>The host: clock, time zone, calendar and random numbers\<close>

text \<open>
  The platform the component runs on is a parameter: the current time, the offset of local
  time from UTC in seconds (a fixed offset, without daylight-saving changes), and the
  \<open>Date\<close> constructor applied to a string, whose result for a text such as \<open>Jan 5\<close> is
  left to the implementation by ECMAScript (\<open>None\<close> is Invalid Date, otherwise epoch
  seconds).
\<close>

record host =
  now :: int
  tz_offset :: int
  parse_date :: "string \<Rightarrow> int option"

text \<open>
  \<open>Math.random\<close>: the sequence of draws is a parameter, the position in it is the state.
  The concurrent callbacks of \<open>Promise.all\<close> are run one after the other, in the order of
  the array.
\<close>

record rng =
  draws :: "nat \<Rightarrow> real"
  pos :: nat

definition Math_random :: "rng \<Rightarrow> real \<times> rng" where
  "Math_random g = (draws g (pos g), g\<lparr>pos := pos g + 1\<rparr>)"

text \<open>\<open>Math.random\<close> returns a number from 0 up to, but not including, 1.\<close>

definition rng_valid :: "rng \<Rightarrow> bool" where
  "rng_valid g \<longleftrightarrow> (\<forall>n. 0 \<le> draws g n \<and> draws g n < 1)"

text \<open>The proleptic Gregorian calendar of \<open>Date\<close>, on day numbers counted from 1970-01-01.\<close>

definition is_leap :: "int \<Rightarrow> bool" where
  "is_leap y \<longleftrightarrow> y mod 4 = 0 \<and> (y mod 100 \<noteq> 0 \<or> y mod 400 = 0)"

definition year_len :: "int \<Rightarrow> int" where
  "year_len y = (if is_leap y then 366 else 365)"

function year_and_day :: "int \<Rightarrow> int \<Rightarrow> int \<times> int" where
  "year_and_day y n =
     (if n < 0 then year_and_day (y - 1) (n + year_len (y - 1))
      else if year_len y \<le> n then year_and_day (y + 1) (n - year_len y)
      else (y, n))"
  by pat_completeness auto
termination
  by (relation "measure (\<lambda>(y, n). if n < 0 then nat (- n) + 366 else nat n)")
     (auto simp: year_len_def split: if_splits)

declare year_and_day.simps [simp del]

text \<open>
  The number of days between 1 January of year 1 and 1 January of year \<open>y\<close>; it relates
  the year search of \<open>year_and_day\<close> to the day number.
\<close>

definition days_before_year :: "int \<Rightarrow> int" where
  "days_before_year y = 365 * (y - 1) + (y - 1) div 4 - (y - 1) div 100 + (y - 1) div 400"

definition month_lengths :: "bool \<Rightarrow> int list" where
  "month_lengths leap = [31, if leap then 29 else 28, 31, 30, 31, 30, 31, 31, 30, 31, 30, 31]"

fun month_walk :: "int list \<Rightarrow> nat \<Rightarrow> int \<Rightarrow> nat \<times> int" where
  "month_walk [] m n = (m, n)"
| "month_walk (len # lens) m n = (if n < len then (m, n) else month_walk lens (m + 1) (n - len))"

text \<open>Year, month index (0 is January) and day of the month (from 1) of a day number.\<close>

definition civil :: "int \<Rightarrow> int \<times> nat \<times> nat" where
  "civil n =
     (let (y, k) = year_and_day 1970 n;
          (m, d) = month_walk (month_lengths (is_leap y)) 0 k
      in (y, m, nat d + 1))"

definition local_day :: "host \<Rightarrow> int \<Rightarrow> int" where
  "local_day h timestamp = (timestamp + tz_offset h) div 86400"

definition month_names :: "string list" where
  "month_names = [''Jan'', ''Feb'', ''Mar'', ''Apr'', ''May'', ''Jun'',
                  ''Jul'', ''Aug'', ''Sep'', ''Oct'', ''Nov'', ''Dec'']"

definition digit :: "nat \<Rightarrow> char" where
  "digit n = char_of (48 + n)"

function show_nat :: "nat \<Rightarrow> string" where
  "show_nat n = (if n < 10 then [digit n] else show_nat (n div 10) @ [digit (n mod 10)])"
  by pat_completeness auto
termination
  by (relation "measure id") auto

declare show_nat.simps [simp del]

text \<open>
  Lines 106-112: \<open>toLocaleDateString('en-US', {month: 'short', day: 'numeric'})\<close> of the
  local date: the short month name and the day, without the year.
\<close>

definition day_key :: "int \<Rightarrow> string" where
  "day_key n = (case civil n of (y, m, d) \<Rightarrow> month_names ! m @ '' '' @ show_nat d)"

definition formatDate :: "host \<Rightarrow> int \<Rightarrow> string" where
  "formatDate h timestamp = day_key (local_day h timestamp)"

text \<open>
  Lines 92-104: the window. \<open>Date\<close> objects are epoch seconds here; \<open>fromDate\<close> is local
  midnight \<open>days\<close> days before today, \<open>toDate\<close> the last second of today (its 999
  milliseconds do not change a comparison with a whole second).
\<close>

record DateRange =
  range_from :: int
  range_to :: int
  fromDate :: int
  toDate :: int

definition getDateRange :: "host \<Rightarrow> int \<Rightarrow> DateRange" where
  "getDateRange h days =
     (let today = local_day h (now h);
          from = (today - days) * 86400 - tz_offset h;
          to = (today + 1) * 86400 - 1 - tz_offset h
      in \<lparr>range_from = from, range_to = to, fromDate = from, toDate = to\<rparr>)"

section \<open>Daily aggregation\<close>

record bucket =
  sentiments :: "real list"
  bvolume :: nat

text \<open>
  \<open>dailyData\<close> is an object used as a dictionary; \<open>Object.entries\<close> lists its keys in
  the order of their first insertion, so it is an association list in which an assignment
  to an existing key replaces the value in place.
\<close>

type_synonym dailyData = "(string \<times> bucket) list"

fun dict_set :: "string \<Rightarrow> 'v \<Rightarrow> (string \<times> 'v) list \<Rightarrow> (string \<times> 'v) list" where
  "dict_set k v [] = [(k, v)]"
| "dict_set k v ((k', v') # kvs) =
     (if k = k' then (k, v) # kvs else (k', v') # dict_set k v kvs)"

text \<open>Lines 241-246: the loop over the days of the window.\<close>

function init_dates :: "host \<Rightarrow> int \<Rightarrow> int \<Rightarrow> dailyData \<Rightarrow> dailyData" where
  "init_dates h currentDate toD dailyData =
     (if currentDate \<le> toD
      then init_dates h (currentDate + 86400) toD
             (dict_set (formatDate h currentDate) \<lparr>sentiments = [], bvolume = 0\<rparr> dailyData)
      else dailyData)"
  by pat_completeness auto
termination
  by (relation "measure (\<lambda>(h, currentDate, toD, dailyData). nat (toD - currentDate + 1))") auto

declare init_dates.simps [simp del]

text \<open>Lines 249-261: the callback of \<open>news.forEach\<close>.\<close>

definition add_item :: "host \<Rightarrow> dailyData \<Rightarrow> NewsItem \<Rightarrow> dailyData" where
  "add_item h dailyData item =
     (case sentiment item of
        None \<Rightarrow> dailyData
      | Some s \<Rightarrow>
          (case map_of dailyData (formatDate h (datetime item)) of
             None \<Rightarrow> dailyData
           | Some b \<Rightarrow>
               dict_set (formatDate h (datetime item))
                 \<lparr>sentiments = sentiments b @ [sentiment_val s], bvolume = bvolume b + 1\<rparr>
                 dailyData))"

definition collect_news :: "host \<Rightarrow> NewsItem list \<Rightarrow> int \<Rightarrow> dailyData" where
  "collect_news h news days =
     foldl (add_item h)
       (init_dates h (fromDate (getDateRange h days)) (toDate (getDateRange h days)) [])
       news"

section \<open>External collaborators\<close>

text \<open>
  Each HTTP endpoint is a function of the request to what \<open>fetch\<close> and \<open>response.json\<close>
  give: the request is rejected (network failure, unreadable body) with a message, the
  status is not ok, or a JSON value arrives.
\<close>

datatype 'a response = Rejected string | NotOk | Json 'a

datatype error = Error string | TypeError

definition error_message :: "error \<Rightarrow> string" where
  "error_message err = (case err of Error m \<Rightarrow> m | TypeError \<Rightarrow> ''TypeError'')"

record hist =
  hist_t :: "int list option"
  hist_c :: "real list option"

text \<open>
  Of \<open>CompanyProfile\<close> only the fields the analysis reads are kept; an absent or empty
  name or industry is the empty string, which is falsy as \<open>undefined\<close> is.
\<close>

record CompanyProfile =
  company_name :: string
  finnhubIndustry :: string
  sector :: "string option"

record env =
  profile_api :: "string \<Rightarrow> CompanyProfile response"
  peers_api :: "string \<Rightarrow> string list response"
  news_api :: "string \<Rightarrow> int \<Rightarrow> int \<Rightarrow> NewsItem list response"
  quote_api :: "string \<Rightarrow> StockQuote response"
  candle_api :: "string \<Rightarrow> int \<Rightarrow> int \<Rightarrow> hist response"
  classifier_api :: "string \<Rightarrow> Sentiment option response"

text \<open>Lines 145-156.\<close>

definition fetchCompanyProfile :: "env \<Rightarrow> string \<Rightarrow> CompanyProfile option" where
  "fetchCompanyProfile e tkr = (case profile_api e tkr of Json data \<Rightarrow> Some data | _ \<Rightarrow> None)"

text \<open>
  Lines 158-178. \<open>companyProfile\<close> is the component state the closure sees: the profile
  of the previous render, not the one set during this call.
\<close>

definition js_or :: "string \<Rightarrow> string option \<Rightarrow> string option" where
  "js_or a b = (if a \<noteq> [] then Some a else b)"

definition fetchPeerCompanies :: "env \<Rightarrow> CompanyProfile option \<Rightarrow> string \<Rightarrow> string list" where
  "fetchPeerCompanies e companyProfile tkr =
     (case peers_api e tkr of
        Json data \<Rightarrow> filter (\<lambda>peer. peer \<noteq> tkr) data
      | _ \<Rightarrow>
          (case companyProfile of
             None \<Rightarrow> []
           | Some p \<Rightarrow>
               let sec = js_or (finnhubIndustry p) (sector p) in
               if sec = Some ''Technology''
               then filter (\<lambda>s. s \<noteq> tkr) [''MSFT'', ''GOOGL'', ''AAPL'', ''IBM'']
               else if sec = Some ''Consumer Cyclical'' \<or> sec = Some ''Retail''
               then filter (\<lambda>s. s \<noteq> tkr) [''AMZN'', ''WMT'', ''TGT'', ''EBAY'']
               else if sec = Some ''Automotive''
               then filter (\<lambda>s. s \<noteq> tkr) [''TSLA'', ''F'', ''GM'', ''TM'']
               else if sec = Some ''Financial Services''
               then filter (\<lambda>s. s \<noteq> tkr) [''JPM'', ''BAC'', ''GS'', ''MS'']
               else []))"

text \<open>Lines 180-187.\<close>

definition fetchNews :: "env \<Rightarrow> host \<Rightarrow> string \<Rightarrow> int \<Rightarrow> error + NewsItem list" where
  "fetchNews e h tkr days =
     (case news_api e tkr (range_from (getDateRange h days)) (range_to (getDateRange h days)) of
        Rejected m \<Rightarrow> Inl (Error m)
      | NotOk \<Rightarrow> Inl (Error ''Failed to fetch news'')
      | Json data \<Rightarrow> Inr (take 50 (filter (\<lambda>item. headline item \<noteq> []) data)))"

text \<open>Lines 189-194.\<close>

definition fetchStockQuote :: "env \<Rightarrow> string \<Rightarrow> error + StockQuote" where
  "fetchStockQuote e tkr =
     (case quote_api e tkr of
        Rejected m \<Rightarrow> Inl (Error m)
      | NotOk \<Rightarrow> Inl (Error ''Failed to fetch stock quote'')
      | Json data \<Rightarrow> Inr data)"

text \<open>Lines 196-207.\<close>

definition fetchHistoricalData :: "env \<Rightarrow> string \<Rightarrow> int \<Rightarrow> int \<Rightarrow> hist option" where
  "fetchHistoricalData e tkr from to =
     (case candle_api e tkr from to of Json data \<Rightarrow> Some data | _ \<Rightarrow> None)"

text \<open>
  Lines 209-234. The classifier's JSON is reduced to its top result, \<open>result[0]?.[0]\<close>,
  which may be absent. When the call fails, the label and the score are drawn at random;
  the index \<open>Math.floor(Math.random() * 3)\<close> is below 3 for a draw in the interval from 0
  to 1.
\<close>

definition analyzeSentiment :: "env \<Rightarrow> string \<Rightarrow> rng \<Rightarrow> Sentiment \<times> rng" where
  "analyzeSentiment e txt g =
     (case classifier_api e txt of
        Json topResult \<Rightarrow>
          (\<lparr>label = (case topResult of
                       Some r \<Rightarrow> if label r \<noteq> [] then label r else ''NEUTRAL''
                     | None \<Rightarrow> ''NEUTRAL''),
            score = (case topResult of
                       Some r \<Rightarrow> if score r \<noteq> 0 then score r else 0.5
                     | None \<Rightarrow> 0.5)\<rparr>, g)
      | _ \<Rightarrow>
          (case Math_random g of (r1, g1) \<Rightarrow>
           case Math_random g1 of (r2, g2) \<Rightarrow>
             (\<lparr>label = [''POSITIVE'', ''NEGATIVE'', ''NEUTRAL''] ! nat \<lfloor>r1 * 3\<rfloor>,
               score = 0.5 + r2 * 0.5\<rparr>, g2)))"

text \<open>Lines 443-446 and 332-337: every item gets the sentiment of its headline.\<close>

fun attach_sentiments :: "env \<Rightarrow> NewsItem list \<Rightarrow> rng \<Rightarrow> NewsItem list \<times> rng" where
  "attach_sentiments e [] g = ([], g)"
| "attach_sentiments e (item # items) g =
     (case analyzeSentiment e (headline item) g of (s, g1) \<Rightarrow>
      case attach_sentiments e items g1 of (rest, g2) \<Rightarrow>
        (item\<lparr>sentiment := Some s\<rparr> # rest, g2))"

section \<open>processSentimentData\<close>

fun findIndex :: "('a \<Rightarrow> bool) \<Rightarrow> 'a list \<Rightarrow> nat option" where
  "findIndex P [] = None"
| "findIndex P (x # xs) =
     (if P x then Some 0 else (case findIndex P xs of None \<Rightarrow> None | Some i \<Rightarrow> Some (i + 1)))"

text \<open>
  Lines 272-275: the two \<open>toLocaleDateString()\<close> texts are equal when both dates are the
  same local calendar day; Invalid Date equals no date.
\<close>

definition same_locale_date :: "host \<Rightarrow> string \<Rightarrow> int \<Rightarrow> bool" where
  "same_locale_date h d t =
     (case parse_date h d of
        None \<Rightarrow> False
      | Some dateObj \<Rightarrow> civil (local_day h t) = civil (local_day h dateObj))"

text \<open>
  \<open>parseFloat(x.toFixed(2))\<close>: \<open>toFixed\<close> rounds the magnitude to the nearest multiple
  of 0.01, the larger one at a tie, and puts the sign back.
\<close>

definition toFixed2 :: "real \<Rightarrow> real" where
  "toFixed2 x =
     (if x < 0 then - (real_of_int \<lfloor>- x * 100 + 1 / 2\<rfloor> / 100)
      else real_of_int \<lfloor>x * 100 + 1 / 2\<rfloor> / 100)"

text \<open>
  Lines 269-285. Reading \<open>historicalData.c[index]\<close> past the end of \<open>c\<close> gives
  \<open>undefined\<close>, on which \<open>toFixed\<close> at line 292 throws a TypeError.
\<close>

definition stock_price :: "host \<Rightarrow> hist option \<Rightarrow> real \<Rightarrow> string \<Rightarrow> rng \<Rightarrow> (error + real) \<times> rng" where
  "stock_price h historicalData basePrice d g =
     (case (case historicalData of
              None \<Rightarrow> None
            | Some hdata \<Rightarrow>
                (case (hist_t hdata, hist_c hdata) of
                   (Some ts, Some cs) \<Rightarrow> Some (ts, cs)
                 | _ \<Rightarrow> None)) of
        Some (ts, cs) \<Rightarrow>
          (case findIndex (same_locale_date h d) ts of
             Some i \<Rightarrow> (if i < length cs then (Inr (cs ! i), g) else (Inl TypeError, g))
           | None \<Rightarrow>
               (case Math_random g of (r, g1) \<Rightarrow> (Inr (basePrice * (0.95 + r * 0.1)), g1)))
      | None \<Rightarrow>
          (case Math_random g of (r, g1) \<Rightarrow> (Inr (basePrice * (0.9 + r * 0.2)), g1)))"

text \<open>
  The candle response is aligned when \<open>c\<close> has a close for every time in \<open>t\<close>, as the
  provider's parallel arrays have; then no read of \<open>c\<close> is out of range.
\<close>

definition hist_aligned :: "hist option \<Rightarrow> bool" where
  "hist_aligned historicalData =
     (case historicalData of
        None \<Rightarrow> True
      | Some hdata \<Rightarrow>
          (case (hist_t hdata, hist_c hdata) of
             (Some ts, Some cs) \<Rightarrow> length ts \<le> length cs
           | _ \<Rightarrow> True))"

text \<open>Lines 267-294: the callback of \<open>map\<close> over the entries, and the map itself.\<close>

definition entry_row :: "host \<Rightarrow> hist option \<Rightarrow> real \<Rightarrow> string \<times> bucket \<Rightarrow> rng \<Rightarrow> (error + SentimentData) \<times> rng" where
  "entry_row h historicalData basePrice entry g =
     (case entry of (d, data) \<Rightarrow>
      case stock_price h historicalData basePrice d g of
        (Inl err, g1) \<Rightarrow> (Inl err, g1)
      | (Inr price, g1) \<Rightarrow>
          (Inr \<lparr>date = d,
                avgSentiment =
                  (if length (sentiments data) > 0
                   then foldl (+) 0 (sentiments data) / real (length (sentiments data))
                   else 0),
                stockPrice = toFixed2 price,
                volume = bvolume data\<rparr>, g1))"

fun entry_rows :: "host \<Rightarrow> hist option \<Rightarrow> real \<Rightarrow> dailyData \<Rightarrow> rng \<Rightarrow> (error + SentimentData list) \<times> rng" where
  "entry_rows h historicalData basePrice [] g = (Inr [], g)"
| "entry_rows h historicalData basePrice (entry # entries) g =
     (case entry_row h historicalData basePrice entry g of
        (Inl err, g1) \<Rightarrow> (Inl err, g1)
      | (Inr row, g1) \<Rightarrow>
          (case entry_rows h historicalData basePrice entries g1 of
             (Inl err, g2) \<Rightarrow> (Inl err, g2)
           | (Inr rows, g2) \<Rightarrow> (Inr (row # rows), g2)))"

text \<open>
  Line 295: the comparator of the final sort, the difference of the parsed dates; a
  difference with Invalid Date is NaN, which \<open>sort\<close> treats as 0.
\<close>

definition by_date :: "host \<Rightarrow> SentimentData \<Rightarrow> SentimentData \<Rightarrow> real" where
  "by_date h a b =
     (case (parse_date h (date a), parse_date h (date b)) of
        (Some x, Some y) \<Rightarrow> real_of_int (x - y)
      | _ \<Rightarrow> 0)"

text \<open>Lines 236-296.\<close>

definition processSentimentData ::
  "env \<Rightarrow> host \<Rightarrow> string \<Rightarrow> NewsItem list \<Rightarrow> StockQuote \<Rightarrow> int \<Rightarrow> rng
     \<Rightarrow> (error + SentimentData list) \<times> rng" where
  "processSentimentData e h selectedStock news quote days g =
     (let dailyData = collect_news h news days;
          historicalData = fetchHistoricalData e selectedStock
                             (range_from (getDateRange h days)) (range_to (getDateRange h days));
          basePrice = quote_c quote
      in case entry_rows h historicalData basePrice dailyData g of
           (Inl err, g1) \<Rightarrow> (Inl err, g1)
         | (Inr rows, g1) \<Rightarrow> (Inr (js_sort (by_date h) rows), g1))"

section \<open>findCompaniesBetterSentiment\<close>

text \<open>Lines 318-366: the callback run for each peer.\<close>

definition peer_result :: "env \<Rightarrow> host \<Rightarrow> string \<Rightarrow> rng \<Rightarrow> CompanyWithSentiment \<times> rng" where
  "peer_result e h tkr g =
     (let peerProfile = fetchCompanyProfile e tkr;
          nm = (case peerProfile of
                  Some p \<Rightarrow> if company_name p \<noteq> [] then company_name p else tkr
                | None \<Rightarrow> tkr);
          peerIndustry =
               (case peerProfile of
                  Some p \<Rightarrow>
                    (case js_or (finnhubIndustry p) (sector p) of
                       Some i \<Rightarrow> if i \<noteq> [] then i else ''Unknown''
                     | None \<Rightarrow> ''Unknown'')
                | None \<Rightarrow> ''Unknown'')
      in case fetchNews e h tkr 7 of
           Inl err \<Rightarrow>
             (case Math_random g of (r, g1) \<Rightarrow>
                (\<lparr>symbol = tkr, name = tkr, peer_sentiment = r * 2 - 1,
                  industry = ''Unknown''\<rparr>, g1))
         | Inr news \<Rightarrow>
             if length news = 0
             then (\<lparr>symbol = tkr, name = nm, peer_sentiment = 0, industry = peerIndustry\<rparr>, g)
             else (case attach_sentiments e (take 8 news) g of (newsWithSentiment, g1) \<Rightarrow>
                     (\<lparr>symbol = tkr, name = nm,
                       peer_sentiment = average (map item_sentiment newsWithSentiment),
                       industry = peerIndustry\<rparr>, g1)))"

fun peer_results :: "env \<Rightarrow> host \<Rightarrow> string list \<Rightarrow> rng \<Rightarrow> CompanyWithSentiment list \<times> rng" where
  "peer_results e h [] g = ([], g)"
| "peer_results e h (tkr # peers) g =
     (case peer_result e h tkr g of (r, g1) \<Rightarrow>
      case peer_results e h peers g1 of (rs, g2) \<Rightarrow> (r # rs, g2))"

text \<open>Lines 378-429: the demo data of the \<open>catch\<close> block.\<close>

definition demoIndustries :: "(string \<times> (string \<times> string list) list) list" where
  "demoIndustries =
     [(''Technology'',
         [(''Microsoft Corp'', [''MSFT'']), (''Alphabet Inc'', [''GOOGL'']),
          (''Apple Inc'', [''AAPL'']), (''Oracle Corp'', [''ORCL''])]),
      (''Automotive'',
         [(''Tesla Inc'', [''TSLA'']), (''Ford Motor Co'', [''F'']),
          (''General Motors'', [''GM'']), (''Toyota Motor Corp'', [''TM''])]),
      (''Retail'',
         [(''Amazon.com Inc'', [''AMZN'']), (''Walmart Inc'', [''WMT'']),
          (''Target Corp'', [''TGT'']), (''Costco Wholesale'', [''COST''])]),
      (''Financial Services'',
         [(''JP Morgan Chase'', [''JPM'']), (''Bank of America'', [''BAC'']),
          (''Goldman Sachs'', [''GS'']), (''Morgan Stanley'', [''MS''])])]"

definition demo_industry :: "string \<Rightarrow> string" where
  "demo_industry currentSymbol =
     (if currentSymbol = ''AAPL'' \<or> currentSymbol = ''MSFT'' \<or> currentSymbol = ''GOOGL''
      then ''Technology''
      else if currentSymbol = ''TSLA'' \<or> currentSymbol = ''F'' \<or> currentSymbol = ''GM''
      then ''Automotive''
      else if currentSymbol = ''AMZN'' \<or> currentSymbol = ''WMT''
      then ''Retail''
      else if currentSymbol = ''JPM'' \<or> currentSymbol = ''BAC''
      then ''Financial Services''
      else ''Technology'')"

definition demo_companies :: "string \<Rightarrow> real \<Rightarrow> CompanyWithSentiment list" where
  "demo_companies currentSymbol currentSentimentValue =
     (let ind = demo_industry currentSymbol;
          industryCompanies =
            (case map_of demoIndustries ind of
               Some cs \<Rightarrow> cs
             | None \<Rightarrow> (case map_of demoIndustries ''Technology'' of Some cs \<Rightarrow> cs | None \<Rightarrow> []));
          otherCompanies =
            take 3 (filter (\<lambda>company. currentSymbol \<notin> set (snd company)) industryCompanies)
      in map (\<lambda>(index, company).
                \<lparr>symbol = hd (snd company), name = fst company,
                 peer_sentiment = currentSentimentValue + (0.3 - real index * 0.05),
                 industry = ind\<rparr>)
             (enumerate 0 otherCompanies))"

text \<open>
  Lines 299-431. The result is the returned list and the profile passed to
  \<open>setCompanyProfile\<close>, if it was called.
\<close>

definition findCompaniesBetterSentiment ::
  "env \<Rightarrow> host \<Rightarrow> CompanyProfile option \<Rightarrow> string \<Rightarrow> real \<Rightarrow> rng
     \<Rightarrow> (CompanyWithSentiment list \<times> CompanyProfile option) \<times> rng" where
  "findCompaniesBetterSentiment e h companyProfile currentSymbol currentSentimentValue g =
     (case fetchCompanyProfile e currentSymbol of
        None \<Rightarrow> ((demo_companies currentSymbol currentSentimentValue, None), g)
      | Some profile \<Rightarrow>
          (let peers = fetchPeerCompanies e companyProfile currentSymbol;
               limitedPeers = take 6 peers
           in case peer_results e h limitedPeers g of (sentimentResults, g1) \<Rightarrow>
                ((betterSentiment sentimentResults currentSentimentValue, Some profile), g1)))"

section \<open>fetchData\<close>

record state =
  selectedStock :: string
  timeRange :: int
  newsData :: "NewsItem list"
  stockQuote :: "StockQuote option"
  sentimentData :: "SentimentData list"
  loading :: bool
  error :: "string option"
  showSearchResults :: bool
  companiesWithBetterSentiment :: "CompanyWithSentiment list"
  currentSentiment :: real
  companyProfile :: "CompanyProfile option"

text \<open>Lines 483-496: the items of \<open>demoNews\<close>, by index; each draws its label, then its score.\<close>

definition demo_item :: "string \<Rightarrow> int \<Rightarrow> nat \<Rightarrow> rng \<Rightarrow> NewsItem \<times> rng" where
  "demo_item stock from i g =
     (case Math_random g of (r1, g1) \<Rightarrow>
      case Math_random g1 of (r2, g2) \<Rightarrow>
        (\<lparr>datetime = from + int (i div 3) * 86400 + int (i mod 3) * 8 * 3600,
          headline = stock @ '' '' @ [''rises'', ''falls'', ''remains stable''] ! (i mod 3)
                     @ '' in '' @ [''Asian'', ''European'', ''US''] ! (i mod 3) @ '' markets'',
          source = ''Demo Source'',
          url = ''#'',
          sentiment = Some \<lparr>label = [''POSITIVE'', ''NEGATIVE'', ''NEUTRAL''] ! nat \<lfloor>r1 * 3\<rfloor>,
                            score = 0.5 + r2 * 0.5\<rparr>\<rparr>, g2))"

fun demo_items :: "string \<Rightarrow> int \<Rightarrow> nat list \<Rightarrow> rng \<Rightarrow> NewsItem list \<times> rng" where
  "demo_items stock from [] g = ([], g)"
| "demo_items stock from (i # is) g =
     (case demo_item stock from i g of (item, g1) \<Rightarrow>
      case demo_items stock from is g1 of (items, g2) \<Rightarrow> (item # items, g2))"

text \<open>Lines 509-524, with the fields of the profile that are modelled.\<close>

definition demo_profile :: "string \<Rightarrow> CompanyProfile" where
  "demo_profile stock =
     \<lparr>company_name = (if stock = ''AAPL'' then ''Apple Inc'' else stock),
      finnhubIndustry =
        (if stock = ''AAPL'' \<or> stock = ''MSFT'' then ''Technology''
         else if stock = ''TSLA'' then ''Automotive''
         else if stock = ''AMZN'' then ''Retail''
         else ''Technology''),
      sector = None\<rparr>"

text \<open>
  Lines 472-528: the \<open>catch\<close> block. It returns the error that escapes it, if any, and
  the state with the updates made up to there.
\<close>

definition fetchData_catch :: "env \<Rightarrow> host \<Rightarrow> state \<Rightarrow> error \<Rightarrow> state \<Rightarrow> rng \<Rightarrow> (error option \<times> state) \<times> rng" where
  "fetchData_catch e h s0 err s g =
     (let s1 = s\<lparr>error := Some (error_message err)\<rparr>;
          from = range_from (getDateRange h (timeRange s0))
      in case Math_random g of (r0, g1) \<Rightarrow>
         let demoQuote = \<lparr>quote_c = 150 + r0 * 50, quote_h = 180, quote_l = 140, quote_o = 155,
                          quote_pc = 148, quote_t = real_of_int (now h)\<rparr>
         in case demo_items (selectedStock s0) from [0 ..< nat (timeRange s0 * 3)] g1 of
              (demoNews, g2) \<Rightarrow>
         let s2 = s1\<lparr>newsData := demoNews, stockQuote := Some demoQuote\<rparr>
         in case processSentimentData e h (selectedStock s0) demoNews demoQuote (timeRange s0) g2 of
              (Inl err2, g3) \<Rightarrow> ((Some err2, s2), g3)
            | (Inr demoProcessedData, g3) \<Rightarrow>
                let demoSentiment = 0.2;
                    s3 = s2\<lparr>sentimentData := demoProcessedData,
                            currentSentiment := demoSentiment,
                            companyProfile := Some (demo_profile (selectedStock s0))\<rparr>
                in case findCompaniesBetterSentiment e h (companyProfile s0) (selectedStock s0)
                          demoSentiment g3 of
                     ((peerCompanies, prof), g4) \<Rightarrow>
                       ((None,
                         s3\<lparr>companyProfile := (case prof of None \<Rightarrow> companyProfile s3
                                                | Some p \<Rightarrow> Some p),
                            companiesWithBetterSentiment := peerCompanies\<rparr>), g4))"

text \<open>
  Lines 437-470: the \<open>try\<close> block. It returns the state reached, or the error thrown
  together with the state updates made before it. When both requests of the first
  \<open>Promise.all\<close> fail, the error of the news request is taken.
\<close>

definition fetchData_try :: "env \<Rightarrow> host \<Rightarrow> state \<Rightarrow> rng \<Rightarrow> (error \<times> state + state) \<times> rng" where
  "fetchData_try e h s g =
     (case fetchNews e h (selectedStock s) (timeRange s) of
        Inl err \<Rightarrow> (Inl (err, s), g)
      | Inr news \<Rightarrow>
     (case fetchStockQuote e (selectedStock s) of
        Inl err \<Rightarrow> (Inl (err, s), g)
      | Inr quote \<Rightarrow>
     (case attach_sentiments e news g of (newsWithSentiment, g1) \<Rightarrow>
      let s1 = s\<lparr>stockQuote := Some quote, newsData := newsWithSentiment\<rparr>
      in case processSentimentData e h (selectedStock s) newsWithSentiment quote (timeRange s) g1 of
           (Inl err, g2) \<Rightarrow> (Inl (err, s1), g2)
         | (Inr processedData, g2) \<Rightarrow>
             let avg = overall_sentiment newsWithSentiment;
                 s2 = s1\<lparr>sentimentData := processedData, currentSentiment := avg\<rparr>
             in case findCompaniesBetterSentiment e h (companyProfile s) (selectedStock s) avg g2 of
                  ((betterCompanies, prof), g3) \<Rightarrow>
                    (Inr (s2\<lparr>companyProfile := (case prof of None \<Rightarrow> companyProfile s2
                                                 | Some p \<Rightarrow> Some p),
                             companiesWithBetterSentiment := betterCompanies\<rparr>), g3))))"

text \<open>Lines 433-532; \<open>finally\<close> clears \<open>loading\<close> on every path.\<close>

definition fetchData :: "env \<Rightarrow> host \<Rightarrow> state \<Rightarrow> rng \<Rightarrow> (error option \<times> state) \<times> rng" where
  "fetchData e h s g =
     (let s0 = s\<lparr>loading := True, error := None, showSearchResults := False\<rparr>
      in case fetchData_try e h s0 g of
           (Inr s1, g1) \<Rightarrow> ((None, s1\<lparr>loading := False\<rparr>), g1)
         | (Inl (err, s1), g1) \<Rightarrow>
             (case fetchData_catch e h s0 err s1 g1 of
                ((uncaught, s2), g2) \<Rightarrow> ((uncaught, s2\<lparr>loading := False\<rparr>), g2)))"

section \<open>The ranking order of the specification\<close>

text \<open>
  The order the specification asks of a ranking result, in its words: descending by
  aggregate sentiment, ties broken by symbol ascending. It is compared with what
  \<open>betterSentiment\<close> returns.
\<close>

definition spec_rank_before :: "CompanyWithSentiment \<Rightarrow> CompanyWithSentiment \<Rightarrow> bool" where
  "spec_rank_before a b \<longleftrightarrow>
     peer_sentiment a > peer_sentiment b \<or>
     (peer_sentiment a = peer_sentiment b \<and> symbol a \<le> symbol b)"

definition spec_ranked :: "CompanyWithSentiment list \<Rightarrow> bool" where
  "spec_ranked rs = sorted_wrt spec_rank_before rs"

section \<open>Concrete inputs\<close>

text \<open>
  A host on 2 January 1970 (UTC) whose \<open>Date\<close> parser rejects every text, providers that
  all answer with a failure status, a random source that always draws 0.75, a quote, and
  two scored headlines of 1 January 1970.
\<close>

definition host_1970 :: host where
  "host_1970 = \<lparr>now = 86400 + 5000, tz_offset = 0, parse_date = (\<lambda>s. None)\<rparr>"

definition env_down :: env where
  "env_down = \<lparr>profile_api = (\<lambda>s. NotOk), peers_api = (\<lambda>s. NotOk),
                news_api = (\<lambda>s f t. NotOk), quote_api = (\<lambda>s. NotOk),
                candle_api = (\<lambda>s f t. NotOk), classifier_api = (\<lambda>s. NotOk)\<rparr>"

definition rng_const :: "real \<Rightarrow> rng" where
  "rng_const r = \<lparr>draws = (\<lambda>n. r), pos = 0\<rparr>"

definition quote_100 :: StockQuote where
  "quote_100 = \<lparr>quote_c = 100, quote_h = 101, quote_l = 99, quote_o = 100, quote_pc = 100,
                 quote_t = 0\<rparr>"

definition news_jan1 :: "NewsItem list" where
  "news_jan1 =
     [\<lparr>datetime = 10, headline = ''up'', source = ''s'', url = ''u'',
       sentiment = Some \<lparr>label = ''POSITIVE'', score = 4 / 5\<rparr>\<rparr>,
      \<lparr>datetime = 100, headline = ''down'', source = ''s'', url = ''u'',
       sentiment = Some \<lparr>label = ''NEGATIVE'', score = 3 / 5\<rparr>\<rparr>]"

text \<open>A host on 1 January 1971 (UTC), 365 days after 1 January 1970.\<close>

definition host_1971 :: host where
  "host_1971 = \<lparr>now = 365 * 86400, tz_offset = 0, parse_date = (\<lambda>s. None)\<rparr>"

text \<open>
  Providers of which only the peer list fails: every profile is a technology company,
  every company has one headline, and the classifier calls every headline positive.
\<close>

definition tech_profile :: CompanyProfile where
  "tech_profile = \<lparr>company_name = ''Apple Inc'', finnhubIndustry = ''Technology'', sector = None\<rparr>"


text \<open>
  The date parser of V8 (Chrome, Node.js): a short month name and a day, without a year,
  are read as that day of the year 2001 at local midnight, a day past the end of the month
  running into the next month; any other text is Invalid Date. Day 11323 is 1 January
  2001.
\<close>

definition digit_val :: "char \<Rightarrow> nat option" where
  "digit_val ch =
     (if 48 \<le> (of_char ch :: nat) \<and> (of_char ch :: nat) < 58 then Some (of_char ch - 48) else None)"

fun read_digits :: "nat \<Rightarrow> string \<Rightarrow> nat option" where
  "read_digits acc [] = Some acc"
| "read_digits acc (ch # chs) =
     (case digit_val ch of None \<Rightarrow> None | Some v \<Rightarrow> read_digits (acc * 10 + v) chs)"

definition parse_month_day :: "int \<Rightarrow> string \<Rightarrow> int option" where
  "parse_month_day tz s =
     (case findIndex (\<lambda>m. m = take 3 s) month_names of
        None \<Rightarrow> None
      | Some m \<Rightarrow>
          if length s < 5 \<or> s ! 3 \<noteq> CHR '' '' then None
          else (case read_digits 0 (drop 4 s) of
                  None \<Rightarrow> None
                | Some d \<Rightarrow>
                    if 1 \<le> d \<and> d \<le> 31
                    then Some ((11323 + sum_list (take m (month_lengths False)) + int d - 1)
                               * 86400 - tz)
                    else None))"

text \<open>A host on 3 January 2001 (UTC) with this parser.\<close>

definition host_2001 :: host where
  "host_2001 = \<lparr>now = 11325 * 86400 + 5000, tz_offset = 0, parse_date = parse_month_day 0\<rparr>"

text \<open>
  Providers that all answer: one peer, one headline per company, a positive classifier,
  and a candle response with the closes of 1 and 2 January 2001.
\<close>

definition env_live :: env where
  "env_live =
     \<lparr>profile_api = (\<lambda>s. Json tech_profile),
      peers_api = (\<lambda>s. Json [''MSFT'']),
      news_api = (\<lambda>s f t. Json [\<lparr>datetime = 11324 * 86400, headline = ''Record quarter'',
                                    source = ''s'', url = ''u'', sentiment = None\<rparr>]),
      quote_api = (\<lambda>s. Json quote_100),
      candle_api = (\<lambda>s f t. Json \<lparr>hist_t = Some [11323 * 86400, 11324 * 86400],
                                    hist_c = Some [120, 121]\<rparr>),
      classifier_api = (\<lambda>s. Json (Some \<lparr>label = ''POSITIVE'', score = 9 / 10\<rparr>))\<rparr>"

text \<open>Two scored headlines of 1 January 2001.\<close>

definition news_2001 :: "NewsItem list" where
  "news_2001 =
     [\<lparr>datetime = 11323 * 86400 + 10, headline = ''up'', source = ''s'', url = ''u'',
       sentiment = Some \<lparr>label = ''POSITIVE'', score = 4 / 5\<rparr>\<rparr>,
      \<lparr>datetime = 11323 * 86400 + 100, headline = ''down'', source = ''s'', url = ''u'',
       sentiment = Some \<lparr>label = ''NEGATIVE'', score = 3 / 5\<rparr>\<rparr>]"

text \<open>
  Providers that all fail, except that the candle response has a time for 1 January 2001
  and no close.
\<close>

definition env_misaligned :: env where
  "env_misaligned =
     env_down\<lparr>candle_api := (\<lambda>s f t. Json \<lparr>hist_t = Some [11323 * 86400], hist_c = Some []\<rparr>)\<rparr>"

text \<open>Lines 78-90: the component state before the first fetch.\<close>

definition initial_state :: state where
  "initial_state =
     \<lparr>selectedStock = ''AAPL'', timeRange = 7, newsData = [], stockQuote = None,
      sentimentData = [], loading = False, error = None, showSearchResults = False,
      companiesWithBetterSentiment = [], currentSentiment = 0, companyProfile = None\<rparr>"

section \<open>Sorting\<close>

lemma mset_js_insert: "mset (js_insert cmp x ys) = add_mset x (mset ys)"
  by (induction ys) auto

lemma mset_js_sort: "mset (js_sort cmp xs) = mset xs"
  by (induction xs) (auto simp: mset_js_insert)

lemma set_js_sort: "set (js_sort cmp xs) = set xs"
  using mset_js_sort [of cmp xs] by (metis set_mset_mset)

lemma length_js_sort: "length (js_sort cmp xs) = length xs"
  using mset_js_sort [of cmp xs] by (metis size_mset)

lemma set_js_insert: "set (js_insert cmp x ys) = insert x (set ys)"
  using mset_js_insert [of cmp x ys] by (metis set_mset_mset set_mset_add_mset_insert)

lemma sorted_js_insert_desc:
  assumes "\<And>a b. cmp a b \<le> 0 \<longleftrightarrow> key b \<le> (key a :: real)"
  shows "sorted_wrt (\<lambda>a b. key b \<le> key a) ys \<Longrightarrow> sorted_wrt (\<lambda>a b. key b \<le> key a) (js_insert cmp x ys)"
proof (induction ys)
  case Nil
  then show ?case by simp
next
  case (Cons y ys)
  show ?case
  proof (cases "cmp x y \<le> 0")
    case True
    then have "key y \<le> key x" using assms by simp
    with Cons.prems True show ?thesis by auto
  next
    case False
    then have "key x \<le> key y" using assms [of x y] by simp
    with Cons False show ?thesis by (auto simp: set_js_insert)
  qed
qed

lemma sorted_js_sort_desc:
  assumes "\<And>a b. cmp a b \<le> 0 \<longleftrightarrow> key b \<le> (key a :: real)"
  shows "sorted_wrt (\<lambda>a b. key b \<le> key a) (js_sort cmp xs)"
  by (induction xs) (auto intro: sorted_js_insert_desc [OF assms])

lemma filter_js_insert_other:
  "\<not> P x \<Longrightarrow> filter P (js_insert cmp x ys) = filter P ys"
  by (induction ys) auto

lemma filter_js_insert_same:
  assumes "\<And>a b. cmp a b \<le> 0 \<longleftrightarrow> key b \<le> (key a :: real)"
  shows "key x = k \<Longrightarrow> filter (\<lambda>y. key y = k) (js_insert cmp x ys) = x # filter (\<lambda>y. key y = k) ys"
proof (induction ys)
  case Nil
  then show ?case by simp
next
  case (Cons y ys)
  show ?case
  proof (cases "cmp x y \<le> 0")
    case True
    with Cons.prems show ?thesis by simp
  next
    case False
    then have "key y \<noteq> key x" using assms [of x y] by auto
    with Cons False show ?thesis by simp
  qed
qed

lemma js_sort_stable:
  assumes "\<And>a b. cmp a b \<le> 0 \<longleftrightarrow> key b \<le> (key a :: real)"
  shows "filter (\<lambda>y. key y = k) (js_sort cmp xs) = filter (\<lambda>y. key y = k) xs"
proof (induction xs)
  case Nil
  then show ?case by simp
next
  case (Cons x xs)
  show ?case
  proof (cases "key x = k")
    case True
    have "filter (\<lambda>y. key y = k) (js_insert cmp x (js_sort cmp xs))
            = x # filter (\<lambda>y. key y = k) (js_sort cmp xs)"
      using assms True by (rule filter_js_insert_same)
    with True Cons show ?thesis by simp
  next
    case False
    then show ?thesis using Cons by (simp add: filter_js_insert_other)
  qed
qed

lemma by_highest_sentiment_le:
  "by_highest_sentiment a b \<le> 0 \<longleftrightarrow> peer_sentiment b \<le> peer_sentiment a"
  by (simp add: by_highest_sentiment_def)

text \<open>
  C2, amended: the ranking holds exactly the candidates whose sentiment is strictly above
  the baseline (as a multiset), it is sorted descending by sentiment, and candidates with
  equal sentiment keep the order they had among the candidates; the symbol plays no part.
\<close>
theorem betterSentiment_stable_ranking:
  "mset (betterSentiment rs baseline) = mset (filter (\<lambda>x. peer_sentiment x > baseline) rs)
   \<and> sorted_wrt (\<lambda>a b. peer_sentiment b \<le> peer_sentiment a) (betterSentiment rs baseline)
   \<and> filter (\<lambda>x. peer_sentiment x = v) (betterSentiment rs baseline)
       = filter (\<lambda>x. peer_sentiment x = v \<and> v > baseline) rs"
proof -
  let ?above = "filter (\<lambda>x. peer_sentiment x > baseline) rs"
  have a: "mset (betterSentiment rs baseline) = mset ?above"
    by (simp add: betterSentiment_def mset_js_sort)
  have b: "sorted_wrt (\<lambda>a b. peer_sentiment b \<le> peer_sentiment a) (betterSentiment rs baseline)"
    unfolding betterSentiment_def by (rule sorted_js_sort_desc) (rule by_highest_sentiment_le)
  have "filter (\<lambda>x. peer_sentiment x = v) (betterSentiment rs baseline)
          = filter (\<lambda>x. peer_sentiment x = v) ?above"
    unfolding betterSentiment_def by (rule js_sort_stable) (rule by_highest_sentiment_le)
  also have "\<dots> = filter (\<lambda>x. peer_sentiment x = v \<and> v > baseline) rs"
    by (induction rs) auto
  finally show ?thesis using a b by simp
qed

text \<open>
  C2, as stated, fails: two candidates tied at 0.5 above the baseline 0.2, supplied as
  C then A, are returned as C then A, which is not symbol-ascending.
\<close>
theorem betterSentiment_tie_counterexample:
  "\<not> spec_ranked (betterSentiment
        [\<lparr>symbol = ''C'', name = ''C'', peer_sentiment = 1 / 2, industry = ''Unknown''\<rparr>,
         \<lparr>symbol = ''A'', name = ''A'', peer_sentiment = 1 / 2, industry = ''Unknown''\<rparr>] (1 / 5))"
  by (simp add: spec_ranked_def spec_rank_before_def betterSentiment_def by_highest_sentiment_def)

lemma foldl_add_sum: "foldl (+) a xs = a + sum_list (xs :: real list)"
  by (induction xs arbitrary: a) auto

text \<open>
  C9: the signed value of a sentiment is its score for POSITIVE, minus its score for
  NEGATIVE and 0 for NEUTRAL, and the rule applied to an item with an attached sentiment
  (overall sentiment, peer sentiment) is the one applied in the daily aggregation.
\<close>
theorem signed_value_rule:
  "sentiment_val \<lparr>label = ''POSITIVE'', score = x\<rparr> = x
   \<and> sentiment_val \<lparr>label = ''NEGATIVE'', score = x\<rparr> = - x
   \<and> sentiment_val \<lparr>label = ''NEUTRAL'', score = x\<rparr> = 0
   \<and> item_sentiment (item\<lparr>sentiment := Some s\<rparr>) = sentiment_val s"
  by (simp add: sentiment_val_def item_sentiment_def)

text \<open>
  C10: in the overall sentiment, an item without a sentiment has the value 0 and is still
  counted: the sum is that of the other items, the divisor is the number of all items.
\<close>
theorem unscored_item_in_denominator:
  "item_sentiment (item\<lparr>sentiment := None\<rparr>) = 0
   \<and> overall_sentiment (before @ [item\<lparr>sentiment := None\<rparr>] @ after)
       = (sum_list (map item_sentiment before) + sum_list (map item_sentiment after))
         / (real (length before) + real (length after) + 1)"
  by (simp add: overall_sentiment_def average_def foldl_add_sum item_sentiment_def)

section \<open>Daily aggregation\<close>

lemma keys_dict_set:
  "map fst (dict_set k v kvs) = (if k \<in> fst ` set kvs then map fst kvs else map fst kvs @ [k])"
  by (induction kvs) force+

lemma map_of_dict_set: "map_of (dict_set k v kvs) = (map_of kvs)(k \<mapsto> v)"
  by (induction kvs) auto

lemma values_dict_set: "set (dict_set k v kvs) \<subseteq> insert (k, v) (set kvs)"
  by (induction kvs) (auto split: if_splits)

lemma local_day_midnight: "local_day h (a * 86400 - tz_offset h) = a"
  by (simp add: local_day_def)

lemma init_dates_window:
  "n = nat (b + 1 - a) \<Longrightarrow> distinct (map fst dd) \<Longrightarrow>
   distinct (map fst (init_dates h (a * 86400 - tz_offset h) ((b + 1) * 86400 - 1 - tz_offset h) dd))
   \<and> set (map fst (init_dates h (a * 86400 - tz_offset h) ((b + 1) * 86400 - 1 - tz_offset h) dd))
       = fst ` set dd \<union> day_key ` {a..b}
   \<and> set (init_dates h (a * 86400 - tz_offset h) ((b + 1) * 86400 - 1 - tz_offset h) dd)
       \<subseteq> set dd \<union> {(k, v). v = \<lparr>sentiments = [], bvolume = 0\<rparr>}"
proof (induction n arbitrary: a dd)
  case 0
  then have "\<not> a * 86400 - tz_offset h \<le> (b + 1) * 86400 - 1 - tz_offset h" by simp
  moreover from 0 have "{a..b} = {}" by simp
  ultimately show ?case using 0 by (simp add: init_dates.simps [of h "a * 86400 - tz_offset h"])
next
  case (Suc n)
  let ?dd = "dict_set (day_key a) \<lparr>sentiments = [], bvolume = 0\<rparr> dd"
  from Suc.prems have le: "a \<le> b" and n: "n = nat (b + 1 - (a + 1))" by auto
  have cur: "a * 86400 - tz_offset h \<le> (b + 1) * 86400 - 1 - tz_offset h" using le by simp
  have step: "init_dates h (a * 86400 - tz_offset h) ((b + 1) * 86400 - 1 - tz_offset h) dd
      = init_dates h ((a + 1) * 86400 - tz_offset h) ((b + 1) * 86400 - 1 - tz_offset h) ?dd"
    using cur by (subst init_dates.simps) (simp add: formatDate_def local_day_midnight algebra_simps)
  have d: "distinct (map fst ?dd)" using Suc.prems(2) by (simp add: keys_dict_set)
  have k: "fst ` set ?dd = insert (day_key a) (fst ` set dd)"
    using keys_dict_set [of "day_key a" "\<lparr>sentiments = [], bvolume = 0\<rparr>" dd]
    by (metis (no_types, lifting) Un_insert_right insert_absorb list.set(1,2) list.set_map set_append sup_bot.right_neutral)
  have i: "{a..b} = insert a {a + 1..b}" using le by auto
  have v: "set ?dd \<subseteq> set dd \<union> {(k, v). v = \<lparr>sentiments = [], bvolume = 0\<rparr>}"
    using values_dict_set [of "day_key a" "\<lparr>sentiments = [], bvolume = 0\<rparr>" dd] by auto
  from Suc.IH [OF n d] show ?case
    unfolding step using k i v by auto
qed


lemma keys_add_item: "map fst (add_item h dd item) = map fst dd"
proof (cases "sentiment item")
  case None
  then show ?thesis by (simp add: add_item_def)
next
  case (Some s)
  show ?thesis
  proof (cases "map_of dd (formatDate h (datetime item))")
    case None
    with Some show ?thesis by (simp add: add_item_def)
  next
    case (Some b)
    then have "formatDate h (datetime item) \<in> fst ` set dd"
      by (metis map_of_SomeD fst_conv image_eqI)
    with Some \<open>sentiment item = Some s\<close> show ?thesis
      by (simp add: add_item_def keys_dict_set)
  qed
qed

lemma keys_foldl_add_item: "map fst (foldl (add_item h) dd news) = map fst dd"
  by (induction news arbitrary: dd) (simp_all add: keys_add_item)

lemma map_of_add_item:
  "map_of (add_item h dd item) k =
     (case map_of dd k of
        None \<Rightarrow> None
      | Some b \<Rightarrow>
          if sentiment item \<noteq> None \<and> formatDate h (datetime item) = k
          then Some \<lparr>sentiments = sentiments b @ [item_sentiment item], bvolume = bvolume b + 1\<rparr>
          else Some b)"
  by (auto simp: add_item_def map_of_dict_set item_sentiment_def sentiment_val_def
           split: option.splits)

lemma map_of_foldl_add_item:
  "map_of (foldl (add_item h) dd news) k =
     (case map_of dd k of
        None \<Rightarrow> None
      | Some b \<Rightarrow>
          Some \<lparr>sentiments = sentiments b @
                   map item_sentiment
                     (filter (\<lambda>item. sentiment item \<noteq> None \<and> formatDate h (datetime item) = k) news),
                 bvolume = bvolume b +
                   length (filter (\<lambda>item. sentiment item \<noteq> None \<and> formatDate h (datetime item) = k) news)\<rparr>)"
proof (induction news rule: rev_induct)
  case Nil
  then show ?case by (simp split: option.splits)
next
  case (snoc item news)
  then show ?case by (simp add: map_of_add_item split: option.splits)
qed

lemma entry_rows_Inr:
  "entry_rows h hdat bp dd g = (Inr rows, g') \<Longrightarrow>
   map (\<lambda>r. (date r, avgSentiment r, volume r)) rows
     = map (\<lambda>(d, b). (d, average (sentiments b), bvolume b)) dd"
proof (induction dd arbitrary: g rows)
  case Nil
  then show ?case by simp
next
  case (Cons entry dd)
  then show ?case
    by (auto simp: entry_row_def average_def split: prod.splits sum.splits)
qed

lemma findIndex_less: "findIndex P xs = Some i \<Longrightarrow> i < length xs"
  by (induction xs arbitrary: i) (auto split: if_splits option.splits)

lemma stock_price_aligned:
  "hist_aligned hdat \<Longrightarrow> \<exists>p. fst (stock_price h hdat bp d g) = Inr p"
  by (auto simp: hist_aligned_def stock_price_def Math_random_def
           split: option.splits prod.splits dest: findIndex_less)

lemma entry_rows_aligned:
  "hist_aligned hdat \<Longrightarrow> \<exists>rows. fst (entry_rows h hdat bp dd g) = Inr rows"
proof (induction dd arbitrary: g)
  case Nil
  then show ?case by simp
next
  case (Cons entry dd)
  obtain d b where entry: "entry = (d, b)" by (cases entry)
  obtain r g1 where sp: "stock_price h hdat bp d g = (r, g1)" by (cases "stock_price h hdat bp d g")
  from stock_price_aligned [OF Cons.prems, of h bp d g] sp obtain p where r: "r = Inr p" by auto
  obtain rs g2 where rest: "entry_rows h hdat bp dd g1 = (rs, g2)" by (cases "entry_rows h hdat bp dd g1")
  from Cons.IH [OF Cons.prems, of g1] rest obtain rows where "rs = Inr rows" by auto
  with entry sp r rest show ?case by (simp add: entry_row_def)
qed

lemma init_dates_range:
  "init_dates h (fromDate (getDateRange h days)) (toDate (getDateRange h days)) []
     = init_dates h ((local_day h (now h) - days) * 86400 - tz_offset h)
         ((local_day h (now h) + 1) * 86400 - 1 - tz_offset h) []"
  by (simp add: getDateRange_def Let_def)


lemma collect_news_keys:
  "distinct (map fst (collect_news h news days))
   \<and> set (map fst (collect_news h news days))
       = day_key ` {local_day h (now h) - days .. local_day h (now h)}"
  using init_dates_window [of "nat (local_day h (now h) + 1 - (local_day h (now h) - days))"
          "local_day h (now h)" "local_day h (now h) - days" "[]" h]
  by (simp add: collect_news_def keys_foldl_add_item init_dates_range)


lemma collect_news_length:
  "length (collect_news h news days)
     = card (day_key ` {local_day h (now h) - days .. local_day h (now h)})"
proof -
  have "length (collect_news h news days) = length (map fst (collect_news h news days))" by simp
  also have "\<dots> = card (set (map fst (collect_news h news days)))"
    using collect_news_keys [of h news days] by (metis distinct_card)
  finally show ?thesis using collect_news_keys [of h news days] by simp
qed


lemma collect_news_bucket:
  assumes "(d, b) \<in> set (collect_news h news days)"
  shows "b = \<lparr>sentiments = map item_sentiment
                 (filter (\<lambda>item. sentiment item \<noteq> None \<and> formatDate h (datetime item) = d) news),
               bvolume = length
                 (filter (\<lambda>item. sentiment item \<noteq> None \<and> formatDate h (datetime item) = d) news)\<rparr>"
proof -
  let ?dd0 = "init_dates h ((local_day h (now h) - days) * 86400 - tz_offset h)
                ((local_day h (now h) + 1) * 86400 - 1 - tz_offset h) []"
  have dd: "collect_news h news days = foldl (add_item h) ?dd0 news"
    by (simp add: collect_news_def init_dates_range)
  have empty: "set ?dd0 \<subseteq> {(k, v). v = \<lparr>sentiments = [], bvolume = 0\<rparr>}"
    using init_dates_window [of "nat (local_day h (now h) + 1 - (local_day h (now h) - days))"
          "local_day h (now h)" "local_day h (now h) - days" "[]" h] by simp
  have "map_of (collect_news h news days) d = Some b"
    using assms collect_news_keys [of h news days] by simp
  then obtain b0 where b0: "map_of ?dd0 d = Some b0"
    and b: "b = \<lparr>sentiments = sentiments b0 @ map item_sentiment
                 (filter (\<lambda>item. sentiment item \<noteq> None \<and> formatDate h (datetime item) = d) news),
               bvolume = bvolume b0 + length
                 (filter (\<lambda>item. sentiment item \<noteq> None \<and> formatDate h (datetime item) = d) news)\<rparr>"
    unfolding dd map_of_foldl_add_item [of h ?dd0 news d] by (auto split: option.splits)
  from b0 have "(d, b0) \<in> set ?dd0" by (rule map_of_SomeD)
  with empty have "b0 = \<lparr>sentiments = [], bvolume = 0\<rparr>" by auto
  with b show ?thesis by simp
qed


lemma processSentimentData_rows:
  assumes "fst (processSentimentData e h stock news quote days g) = Inr rows"
  shows "\<exists>rows0. mset rows = mset rows0 \<and>
           map (\<lambda>r. (date r, avgSentiment r, volume r)) rows0
             = map (\<lambda>(d, b). (d, average (sentiments b), bvolume b)) (collect_news h news days)"
proof -
  let ?hd = "fetchHistoricalData e stock (range_from (getDateRange h days)) (range_to (getDateRange h days))"
  obtain res g1 where er: "entry_rows h ?hd (quote_c quote) (collect_news h news days) g = (res, g1)"
    by (cases "entry_rows h ?hd (quote_c quote) (collect_news h news days) g")
  from assms er obtain rows0 where res: "res = Inr rows0" and rows: "rows = js_sort (by_date h) rows0"
    by (cases res) (auto simp: processSentimentData_def Let_def)
  from er res have "map (\<lambda>r. (date r, avgSentiment r, volume r)) rows0
             = map (\<lambda>(d, b). (d, average (sentiments b), bvolume b)) (collect_news h news days)"
    by (simp add: entry_rows_Inr)
  with rows show ?thesis by (auto simp: mset_js_sort)
qed


text \<open>
  C8: every row returned by the daily aggregation has as \<open>avgSentiment\<close> the arithmetic
  mean of the signed values of the news items that carry a sentiment and fall on the row's
  day label, and exactly 0 when there is no such item; its volume is their number.
\<close>

theorem daily_average_is_mean:
  assumes "fst (processSentimentData e h stock news quote days g) = Inr rows"
    and "r \<in> set rows"
  shows "avgSentiment r =
           (if filter (\<lambda>item. sentiment item \<noteq> None \<and> formatDate h (datetime item) = date r) news = []
            then 0
            else sum_list (map item_sentiment
                   (filter (\<lambda>item. sentiment item \<noteq> None \<and> formatDate h (datetime item) = date r) news))
                 / real (length
                   (filter (\<lambda>item. sentiment item \<noteq> None \<and> formatDate h (datetime item) = date r) news)))
         \<and> volume r =
             length (filter (\<lambda>item. sentiment item \<noteq> None \<and> formatDate h (datetime item) = date r) news)"
proof -
  from processSentimentData_rows [OF assms(1)] obtain rows0 where
    m: "mset rows = mset rows0" and
    t: "map (\<lambda>r. (date r, avgSentiment r, volume r)) rows0
          = map (\<lambda>(d, b). (d, average (sentiments b), bvolume b)) (collect_news h news days)"
    by blast
  from m assms(2) have "r \<in> set rows0" by (metis set_mset_mset)
  then have "(date r, avgSentiment r, volume r)
      \<in> set (map (\<lambda>(d, b). (d, average (sentiments b), bvolume b)) (collect_news h news days))"
    unfolding t [symmetric] by force
  then obtain d b where db: "(d, b) \<in> set (collect_news h news days)"
    and r: "date r = d" "avgSentiment r = average (sentiments b)" "volume r = bvolume b"
    by auto
  from collect_news_bucket [OF db] r show ?thesis
    by (simp add: average_def foldl_add_sum)
qed


lemma processSentimentData_length:
  assumes "fst (processSentimentData e h stock news quote days g) = Inr rows"
  shows "length rows = card (day_key ` {local_day h (now h) - days .. local_day h (now h)})"
proof -
  from processSentimentData_rows [OF assms] obtain rows0 where
    m: "mset rows = mset rows0" and
    t: "map (\<lambda>r. (date r, avgSentiment r, volume r)) rows0
          = map (\<lambda>(d, b). (d, average (sentiments b), bvolume b)) (collect_news h news days)"
    by blast
  from m have "length rows = length rows0" by (rule mset_eq_length)
  moreover from t have "length (map (\<lambda>r. (date r, avgSentiment r, volume r)) rows0)
      = length (map (\<lambda>(d, b). (d, average (sentiments b), bvolume b)) (collect_news h news days))"
    by (rule arg_cong)
  then have "length rows0 = length (collect_news h news days)" by (simp only: length_map)
  ultimately show ?thesis by (simp only: collect_news_length)
qed


lemma processSentimentData_returns:
  assumes "hist_aligned (fetchHistoricalData e stock (range_from (getDateRange h days)) (range_to (getDateRange h days)))"
  shows "\<exists>rows. fst (processSentimentData e h stock news quote days g) = Inr rows"
proof -
  let ?hd = "fetchHistoricalData e stock (range_from (getDateRange h days)) (range_to (getDateRange h days))"
  from entry_rows_aligned [OF assms, of h "quote_c quote" "collect_news h news days" g]
  obtain rows0 where "fst (entry_rows h ?hd (quote_c quote) (collect_news h news days) g) = Inr rows0"
    by blast
  then show ?thesis
    by (cases "entry_rows h ?hd (quote_c quote) (collect_news h news days) g")
       (simp add: processSentimentData_def Let_def)
qed

section \<open>The calendar: day labels within a year are distinct\<close>

lemma div_pred:
  fixes y d :: int
  assumes "0 < d"
  shows "(y - 1) div d = (if y mod d = 0 then y div d - 1 else y div d)"
proof (cases "y mod d = 0")
  case True
  have "y = d * (y div d) + y mod d" by simp
  with True have eq: "y - 1 = d * (y div d - 1) + (d - 1)" by (simp add: algebra_simps)
  have "(y - 1) div d = y div d - 1"
    by (rule int_div_pos_eq [of _ _ _ "d - 1"]) (use eq assms in simp_all)
  with True show ?thesis by simp
next
  case False
  have r: "0 \<le> y mod d" "y mod d < d" using assms by simp_all
  have "y = d * (y div d) + y mod d" by simp
  then have eq: "y - 1 = d * (y div d) + (y mod d - 1)" by simp
  have "(y - 1) div d = y div d"
    by (rule int_div_pos_eq [of _ _ _ "y mod d - 1"]) (use eq r False in simp_all)
  with False show ?thesis by simp
qed

lemma leap_mods:
  fixes y :: int
  shows "y mod 400 = 0 \<Longrightarrow> y mod 100 = 0" and "y mod 100 = 0 \<Longrightarrow> y mod 4 = 0"
proof -
  have a: "(100::int) dvd 400" and b: "(4::int) dvd 100" by simp_all
  show "y mod 400 = 0 \<Longrightarrow> y mod 100 = 0"
    using a by (metis dvd_trans mod_eq_0_iff_dvd)
  show "y mod 100 = 0 \<Longrightarrow> y mod 4 = 0"
    using b by (metis dvd_trans mod_eq_0_iff_dvd)
qed

lemma days_before_year_step: "days_before_year (y + 1) = days_before_year y + year_len y"
proof -
  have "(y - 1) div 4 = (if y mod 4 = 0 then y div 4 - 1 else y div 4)"
       "(y - 1) div 100 = (if y mod 100 = 0 then y div 100 - 1 else y div 100)"
       "(y - 1) div 400 = (if y mod 400 = 0 then y div 400 - 1 else y div 400)"
    by (rule div_pred, simp)+
  then show ?thesis
    using leap_mods [of y]
    by (simp add: days_before_year_def year_len_def is_leap_def split: if_splits)
qed

lemma year_len_bounds: "365 \<le> year_len y" "year_len y \<le> 366"
  by (simp_all add: year_len_def)

lemma year_and_day_inv:
  "year_and_day y n = (y', k) \<Longrightarrow>
     0 \<le> k \<and> k < year_len y' \<and> days_before_year y' + k = days_before_year y + n"
proof (induction y n arbitrary: y' k rule: year_and_day.induct)
  case (1 y n)
  show ?case
  proof (cases "n < 0")
    case True
    with "1.prems" have "year_and_day (y - 1) (n + year_len (y - 1)) = (y', k)"
      by (simp add: year_and_day.simps [of y n])
    from "1.IH"(1) [OF True this] days_before_year_step [of "y - 1"] show ?thesis by simp
  next
    case False
    show ?thesis
    proof (cases "year_len y \<le> n")
      case True
      with False "1.prems" have "year_and_day (y + 1) (n - year_len y) = (y', k)"
        by (simp add: year_and_day.simps [of y n])
      from "1.IH"(2) [OF False True this] days_before_year_step [of y] show ?thesis by simp
    next
      case b: False
      with False "1.prems" show ?thesis by (simp add: year_and_day.simps [of y n])
    qed
  qed
qed

lemma days_before_year_mono_aux:
  "days_before_year y + 365 * int n \<le> days_before_year (y + int n)"
proof (induction n)
  case 0
  then show ?case by simp
next
  case (Suc n)
  have "y + int (Suc n) = (y + int n) + 1" by simp
  then have "days_before_year (y + int (Suc n)) = days_before_year (y + int n) + year_len (y + int n)"
    by (simp only: days_before_year_step)
  with Suc year_len_bounds(1) [of "y + int n"] show ?case by simp
qed

lemma days_before_year_mono:
  assumes "y \<le> y'"
  shows "days_before_year y + 365 * (y' - y) \<le> days_before_year y'"
  using days_before_year_mono_aux [of y "nat (y' - y)"] assms by simp


lemma month_walk_ordinal:
  assumes "0 \<le> k" and "k < (if leap then 366 else 365)"
    and "month_walk (month_lengths leap) 0 k = (m, d)"
  shows "m < 12 \<and> 0 \<le> d \<and>
         [0, 31, 60, 91, 121, 152, 182, 213, 244, 274, 305, 335] ! m + d
           = (if leap \<or> k < 59 then k else k + 1)"
  using assms by (auto simp: month_lengths_def split: if_splits)

lemma digit_inj: "n < 10 \<Longrightarrow> m < 10 \<Longrightarrow> digit n = digit m \<Longrightarrow> n = m"
proof -
  assume a: "n < 10" "m < 10" "digit n = digit m"
  then have "(of_char (digit n) :: nat) = of_char (digit m)" by simp
  with a show ?thesis by (simp add: digit_def)
qed

lemma show_nat_nonempty: "show_nat n \<noteq> []"
  by (subst show_nat.simps) simp

lemma show_nat_inj: "show_nat n = show_nat m \<Longrightarrow> n = m"
proof (induction n arbitrary: m rule: show_nat.induct)
  case (1 n)
  show ?case
  proof (cases "n < 10")
    case True
    show ?thesis
    proof (cases "m < 10")
      case m: True
      with True "1.prems" show ?thesis
        by (simp add: show_nat.simps [of n] show_nat.simps [of m] digit_inj)
    next
      case m: False
      with True "1.prems" show_nat_nonempty [of "m div 10"] show ?thesis
        by (simp add: show_nat.simps [of n] show_nat.simps [of m])
    qed
  next
    case False
    show ?thesis
    proof (cases "m < 10")
      case m: True
      with False "1.prems" show_nat_nonempty [of "n div 10"] show ?thesis
        by (simp add: show_nat.simps [of n] show_nat.simps [of m])
    next
      case m: False
      with False "1.prems" have e: "show_nat (n div 10) = show_nat (m div 10)"
        and d: "digit (n mod 10) = digit (m mod 10)"
        by (simp_all add: show_nat.simps [of n] show_nat.simps [of m])
      from "1.IH" [OF False e] have "n div 10 = m div 10" .
      moreover from d have "n mod 10 = m mod 10" by (simp add: digit_inj)
      ultimately show ?thesis by (metis div_mult_mod_eq)
    qed
  qed
qed

lemma month_names_inj:
  "m < 12 \<Longrightarrow> m' < 12 \<Longrightarrow> month_names ! m = month_names ! m' \<Longrightarrow> m = m'"
proof -
  have "distinct month_names" and "length month_names = 12" by (simp_all add: month_names_def)
  then show "m < 12 \<Longrightarrow> m' < 12 \<Longrightarrow> month_names ! m = month_names ! m' \<Longrightarrow> m = m'"
    by (simp add: nth_eq_iff_index_eq)
qed

lemma month_names_length: "m < 12 \<Longrightarrow> length (month_names ! m) = 3"
proof -
  have "\<forall>s \<in> set month_names. length s = 3" and "length month_names = 12"
    by (simp_all add: month_names_def)
  then show "m < 12 \<Longrightarrow> length (month_names ! m) = 3" by (metis nth_mem)
qed

lemma key_text_inj:
  assumes "m < 12" "m' < 12"
    and "month_names ! m @ '' '' @ show_nat d = month_names ! m' @ '' '' @ show_nat d'"
  shows "m = m' \<and> d = d'"
proof -
  have "length (month_names ! m) = length (month_names ! m')"
    using assms(1,2) by (simp add: month_names_length)
  with assms(3) have "month_names ! m = month_names ! m'" and "show_nat d = show_nat d'"
    by simp_all
  with assms(1,2) show ?thesis by (simp add: month_names_inj show_nat_inj)
qed


lemma civil_decompose:
  "\<exists>y k m d. civil n = (y, m, nat d + 1) \<and> m < 12 \<and> 0 \<le> d \<and> 0 \<le> k \<and> k < year_len y
      \<and> days_before_year y + k = days_before_year 1970 + n
      \<and> [0, 31, 60, 91, 121, 152, 182, 213, 244, 274, 305, 335] ! m + d
           = (if is_leap y \<or> k < 59 then k else k + 1)"
proof -
  obtain y k where yk: "year_and_day 1970 n = (y, k)" by (cases "year_and_day 1970 n")
  obtain m d where md: "month_walk (month_lengths (is_leap y)) 0 k = (m, d)"
    by (cases "month_walk (month_lengths (is_leap y)) 0 k")
  from year_and_day_inv [OF yk] have k: "0 \<le> k" "k < year_len y"
    "days_before_year y + k = days_before_year 1970 + n" by simp_all
  from k(2) have "k < (if is_leap y then 366 else 365)" by (simp add: year_len_def)
  from month_walk_ordinal [OF k(1) this md] yk md k show ?thesis
    by (intro exI [of _ y] exI [of _ k] exI [of _ m] exI [of _ d]) (simp add: civil_def)
qed

lemma day_key_distinct_less:
  assumes "a < b" and "b - a < 365"
  shows "day_key a \<noteq> day_key b"
proof
  assume eq: "day_key a = day_key b"
  let ?cum = "[0, 31, 60, 91, 121, 152, 182, 213, 244, 274, 305, 335] :: int list"
  from civil_decompose [of a] obtain ya ka ma da where
    a: "civil a = (ya, ma, nat da + 1)" "ma < 12" "0 \<le> da" "0 \<le> ka" "ka < year_len ya"
       "days_before_year ya + ka = days_before_year 1970 + a"
       "?cum ! ma + da = (if is_leap ya \<or> ka < 59 then ka else ka + 1)"
    by blast
  from civil_decompose [of b] obtain yb kb mb db where
    b: "civil b = (yb, mb, nat db + 1)" "mb < 12" "0 \<le> db" "0 \<le> kb" "kb < year_len yb"
       "days_before_year yb + kb = days_before_year 1970 + b"
       "?cum ! mb + db = (if is_leap yb \<or> kb < 59 then kb else kb + 1)"
    by blast
  from eq a(1) b(1) have "month_names ! ma @ '' '' @ show_nat (nat da + 1)
      = month_names ! mb @ '' '' @ show_nat (nat db + 1)"
    by (simp add: day_key_def)
  from key_text_inj [OF a(2) b(2) this] a(3) b(3) have same: "ma = mb" "da = db"
    by (simp_all add: eq_nat_nat_iff)
  with a(7) b(7) have ord: "(if is_leap ya \<or> ka < 59 then ka else ka + 1)
      = (if is_leap yb \<or> kb < 59 then kb else kb + 1)" by simp
  consider "yb < ya" | "yb = ya" | "yb = ya + 1" | "ya + 2 \<le> yb" by linarith
  then show False
  proof cases
    case 1
    then have "days_before_year (yb + 1) \<le> days_before_year ya"
      using days_before_year_mono [of "yb + 1" ya] by simp
    with days_before_year_step [of yb] a(4,6) b(5,6) assms(1) show False by simp
  next
    case 2
    with a(6) b(6) assms(1) have "ka < kb" by simp
    with ord 2 show False by (simp split: if_splits)
  next
    case 3
    with days_before_year_step [of ya] a(6) b(6) assms(2)
    have "kb + year_len ya - ka < 365" by simp
    with ord a(4) b(4) show False by (simp add: year_len_def split: if_splits)
  next
    case 4
    then have "days_before_year (ya + 2) \<le> days_before_year yb"
      using days_before_year_mono [of "ya + 2" yb] by simp
    moreover have "days_before_year (ya + 2) = days_before_year ya + year_len ya + year_len (ya + 1)"
      using days_before_year_step [of ya] days_before_year_step [of "ya + 1"] by (simp add: add.assoc)
    ultimately show False
      using year_len_bounds(1) [of "ya + 1"] a(5,6) b(4,6) assms(2) by simp
  qed
qed

lemma day_key_inj_on:
  "days \<le> 364 \<Longrightarrow> inj_on day_key {today - days .. today}"
proof (rule inj_onI)
  fix x y
  assume d: "days \<le> 364" and x: "x \<in> {today - days .. today}" and y: "y \<in> {today - days .. today}"
    and eq: "day_key x = day_key y"
  show "x = y"
  proof (rule ccontr)
    assume "x \<noteq> y"
    then consider "x < y" | "y < x" by linarith
    then show False
    proof cases
      case 1
      with d x y have "y - x < 365" by simp
      from day_key_distinct_less [OF 1 this] eq show False by simp
    next
      case 2
      with d x y have "x - y < 365" by simp
      from day_key_distinct_less [OF 2 this] eq show False by simp
    qed
  qed
qed

section \<open>The length of the daily series\<close>

lemma processSentimentData_days:
  assumes "0 \<le> days" and "days \<le> 364"
    and "hist_aligned (fetchHistoricalData e stock (range_from (getDateRange h days))
                         (range_to (getDateRange h days)))"
  shows "\<exists>rows. fst (processSentimentData e h stock news quote days g) = Inr rows
                \<and> length rows = nat days + 1"
proof -
  from processSentimentData_returns [OF assms(3), of news quote g]
  obtain rows where rows: "fst (processSentimentData e h stock news quote days g) = Inr rows"
    by blast
  have "length rows = card (day_key ` {local_day h (now h) - days .. local_day h (now h)})"
    using rows by (rule processSentimentData_length)
  also have "\<dots> = card {local_day h (now h) - days .. local_day h (now h)}"
    using assms(2) by (intro card_image day_key_inj_on)
  also have "\<dots> = nat days + 1" using assms(1) by simp
  finally show ?thesis using rows by blast
qed

text \<open>
  C1, amended: for every window of at most 365 days (\<open>days\<close> from 0 to 364, which covers
  the offered ranges of 1, 7, 14 and 30 days) and every list of news items, the daily
  aggregation returns, when the candle response is aligned, a series with one row per
  calendar day of the window, \<open>days + 1\<close> rows.
\<close>

theorem daily_series_length:
  assumes "0 \<le> days" and "days \<le> 364"
    and "hist_aligned (fetchHistoricalData e stock (range_from (getDateRange h days))
                         (range_to (getDateRange h days)))"
  shows "\<exists>rows. fst (processSentimentData e h stock news quote days g) = Inr rows
                \<and> length rows = nat days + 1"
  using assms by (rule processSentimentData_days)

lemma env_down_aligned:
  "hist_aligned (fetchHistoricalData env_down stock from to)"
  by (simp add: hist_aligned_def fetchHistoricalData_def env_down_def)

theorem daily_series_length_witness:
  "(0::int) \<le> 2 \<and> (2::int) \<le> 364
   \<and> hist_aligned (fetchHistoricalData env_down ''AAPL'' (range_from (getDateRange host_1970 2))
                         (range_to (getDateRange host_1970 2)))
   \<and> (\<exists>rows. fst (processSentimentData env_down host_1970 ''AAPL'' news_jan1 quote_100 2
                      (rng_const (3 / 4))) = Inr rows
              \<and> length rows = 3)"
proof -
  have a: "(0::int) \<le> 2" and b: "(2::int) \<le> 364" by simp_all
  have c: "hist_aligned (fetchHistoricalData env_down ''AAPL'' (range_from (getDateRange host_1970 2))
                         (range_to (getDateRange host_1970 2)))"
    by (rule env_down_aligned)
  from daily_series_length [where news = news_jan1 and quote = quote_100
         and g = "rng_const (3 / 4)", OF a b c] a b c
  show ?thesis by simp
qed

lemma year_1970_keys: "card (day_key ` {0..365}) = 365"
proof -
  have same: "day_key 365 = day_key 0" by code_simp
  have "{0..365::int} = insert 365 {0..364}" by auto
  then have "day_key ` {0..365} = day_key ` {0..364}"
    using same by auto
  moreover have "card (day_key ` {364 - 364 .. 364}) = card {364 - 364 .. 364 :: int}"
    by (intro card_image day_key_inj_on) simp
  ultimately show ?thesis by simp
qed

text \<open>
  C1, as stated, fails: the days are keyed by month and day without the year, so in the
  366-day window from 1 January 1970 to 1 January 1971 the last day falls on the key of the
  first, and the series has 365 rows.
\<close>

theorem year_window_counterexample:
  "map_sum id length
     (fst (processSentimentData env_down host_1971 ''AAPL'' [] quote_100 365 (rng_const (3 / 4))))
   = Inr 365"
proof -
  from processSentimentData_returns [OF env_down_aligned]
  obtain rows where rows:
    "fst (processSentimentData env_down host_1971 ''AAPL'' [] quote_100 365 (rng_const (3 / 4))) = Inr rows"
    by blast
  have today: "local_day host_1971 (now host_1971) = 365"
    by (simp add: local_day_def host_1971_def)
  from processSentimentData_length [OF rows] today year_1970_keys have "length rows = 365" by simp
  with rows show ?thesis by simp
qed

section \<open>Witnesses of the daily aggregation\<close>

theorem daily_average_is_mean_witness:
  "fst (processSentimentData env_down host_1970 ''AAPL'' news_jan1 quote_100 2 (rng_const (3 / 4)))
     = Inr [\<lparr>date = ''Dec 31'', avgSentiment = 0, stockPrice = 105, volume = 0\<rparr>,
            \<lparr>date = ''Jan 1'', avgSentiment = 1 / 10, stockPrice = 105, volume = 2\<rparr>,
            \<lparr>date = ''Jan 2'', avgSentiment = 0, stockPrice = 105, volume = 0\<rparr>]
   \<and> \<lparr>date = ''Jan 1'', avgSentiment = 1 / 10, stockPrice = 105, volume = 2\<rparr>
       \<in> set [\<lparr>date = ''Dec 31'', avgSentiment = 0, stockPrice = 105, volume = 0\<rparr>,
               \<lparr>date = ''Jan 1'', avgSentiment = 1 / 10, stockPrice = 105, volume = 2\<rparr>,
               \<lparr>date = ''Jan 2'', avgSentiment = 0, stockPrice = 105, volume = 0\<rparr>]
   \<and> (1 / 10 :: real) = (4 / 5 + - (3 / 5)) / 2
   \<and> filter (\<lambda>item. sentiment item \<noteq> None \<and> formatDate host_1970 (datetime item) = ''Jan 1'')
        news_jan1 = news_jan1"
proof -
  let ?rows = "[\<lparr>date = ''Dec 31'', avgSentiment = 0, stockPrice = 105, volume = 0\<rparr>,
            \<lparr>date = ''Jan 1'', avgSentiment = 1 / 10, stockPrice = 105, volume = 2\<rparr>,
            \<lparr>date = ''Jan 2'', avgSentiment = 0, stockPrice = 105, volume = 0\<rparr>]"
  let ?r = "\<lparr>date = ''Jan 1'', avgSentiment = 1 / 10, stockPrice = 105, volume = 2\<rparr>"
  have a: "fst (processSentimentData env_down host_1970 ''AAPL'' news_jan1 quote_100 2
                 (rng_const (3 / 4))) = Inr ?rows"
    by code_simp
  have b: "?r \<in> set ?rows" by simp
  have k: "formatDate host_1970 10 = ''Jan 1''" "formatDate host_1970 100 = ''Jan 1''"
    by code_simp+
  then have f: "filter (\<lambda>item. sentiment item \<noteq> None \<and> formatDate host_1970 (datetime item) = ''Jan 1'')
        news_jan1 = news_jan1"
    by (simp add: news_jan1_def)
  from daily_average_is_mean [OF a b] f a b show ?thesis
    by (simp add: news_jan1_def item_sentiment_def)
qed

section \<open>The scorer when the classifier fails\<close>

lemma rng_const_valid: "0 \<le> r \<Longrightarrow> r < 1 \<Longrightarrow> rng_valid (rng_const r)"
  by (simp add: rng_valid_def rng_const_def)

lemma random_label_in_set:
  assumes "0 \<le> r" and "r < (1::real)"
  shows "[''POSITIVE'', ''NEGATIVE'', ''NEUTRAL''] ! nat \<lfloor>r * 3\<rfloor>
           \<in> {''POSITIVE'', ''NEGATIVE'', ''NEUTRAL''}"
proof -
  from assms have "\<lfloor>r * 3\<rfloor> < 3" by (simp add: floor_less_iff)
  then have "nat \<lfloor>r * 3\<rfloor> < 3" by linarith
  then consider "nat \<lfloor>r * 3\<rfloor> = 0" | "nat \<lfloor>r * 3\<rfloor> = 1" | "nat \<lfloor>r * 3\<rfloor> = 2" by linarith
  then show ?thesis by cases simp_all
qed

lemma attach_sentiments_keeps:
  "list_all2 (\<lambda>item scored. \<exists>s. scored = item\<lparr>sentiment := Some s\<rparr>)
     items (fst (attach_sentiments e items g))"
proof (induction items arbitrary: g)
  case Nil
  then show ?case by simp
next
  case (Cons item items)
  obtain s g1 where a: "analyzeSentiment e (headline item) g = (s, g1)"
    by (cases "analyzeSentiment e (headline item) g")
  obtain rest g2 where r: "attach_sentiments e items g1 = (rest, g2)"
    by (cases "attach_sentiments e items g1")
  from Cons [of g1] r have "list_all2 (\<lambda>item scored. \<exists>s. scored = item\<lparr>sentiment := Some s\<rparr>) items rest"
    by simp
  with a r show ?case by auto
qed

text \<open>
  C6, amended: when the classifier call fails for a headline, the scorer signals nothing;
  it returns a label drawn from POSITIVE, NEGATIVE and NEUTRAL and a score of 0.5 plus
  half a random draw, from 0.5 up to 1. The headline is not dropped: every item is kept,
  in order, with a sentiment attached.
\<close>

theorem classifier_failure_random_sentiment:
  assumes "\<forall>res. classifier_api e txt \<noteq> Json res" and "rng_valid g"
  shows "label (fst (analyzeSentiment e txt g)) \<in> {''POSITIVE'', ''NEGATIVE'', ''NEUTRAL''}
         \<and> score (fst (analyzeSentiment e txt g)) = 0.5 + draws g (pos g + 1) * 0.5
         \<and> 1 / 2 \<le> score (fst (analyzeSentiment e txt g))
         \<and> score (fst (analyzeSentiment e txt g)) < 1
         \<and> list_all2 (\<lambda>item scored. \<exists>s. scored = item\<lparr>sentiment := Some s\<rparr>)
              items (fst (attach_sentiments e items g))"
proof -
  from assms(2) have d0: "0 \<le> draws g (pos g)" "draws g (pos g) < 1"
    and d1: "0 \<le> draws g (pos g + 1)" "draws g (pos g + 1) < 1"
    by (simp_all add: rng_valid_def)
  have v: "fst (analyzeSentiment e txt g)
      = \<lparr>label = [''POSITIVE'', ''NEGATIVE'', ''NEUTRAL''] ! nat \<lfloor>draws g (pos g) * 3\<rfloor>,
         score = 0.5 + draws g (pos g + 1) * 0.5\<rparr>"
    using assms(1) by (cases "classifier_api e txt") (simp_all add: analyzeSentiment_def Math_random_def)
  show ?thesis
    unfolding v using random_label_in_set [OF d0] d1 attach_sentiments_keeps [of items e g] by simp
qed

theorem classifier_failure_random_sentiment_witness:
  "(\<forall>res. classifier_api env_down ''Shares fall'' \<noteq> Json res) \<and> rng_valid (rng_const (1 / 4))
   \<and> fst (analyzeSentiment env_down ''Shares fall'' (rng_const (1 / 4)))
       = \<lparr>label = ''POSITIVE'', score = 5 / 8\<rparr>
   \<and> label (fst (analyzeSentiment env_down ''Shares fall'' (rng_const (1 / 4))))
       \<in> {''POSITIVE'', ''NEGATIVE'', ''NEUTRAL''}
   \<and> 1 / 2 \<le> score (fst (analyzeSentiment env_down ''Shares fall'' (rng_const (1 / 4))))
   \<and> score (fst (analyzeSentiment env_down ''Shares fall'' (rng_const (1 / 4)))) < 1"
proof -
  have a: "\<forall>res. classifier_api env_down ''Shares fall'' \<noteq> Json res" by (simp add: env_down_def)
  have b: "rng_valid (rng_const (1 / 4))" by (rule rng_const_valid) simp_all
  have c: "fst (analyzeSentiment env_down ''Shares fall'' (rng_const (1 / 4)))
       = \<lparr>label = ''POSITIVE'', score = 5 / 8\<rparr>"
    by (simp add: analyzeSentiment_def env_down_def Math_random_def rng_const_def)
  from classifier_failure_random_sentiment [OF a b, of "[]"] a b c show ?thesis by simp
qed

text \<open>
  C6, as stated, fails: with the classifier down and a draw of 0.25, the headline
  \<open>Shares fall\<close> is given the sentiment POSITIVE with score 0.625 instead of being
  left unscored.
\<close>

theorem classifier_failure_counterexample:
  "map sentiment
     (fst (attach_sentiments env_down
             [\<lparr>datetime = 0, headline = ''Shares fall'', source = ''s'', url = ''u'',
               sentiment = None\<rparr>]
             (rng_const (1 / 4))))
   = [Some \<lparr>label = ''POSITIVE'', score = 5 / 8\<rparr>]"
  by (simp add: analyzeSentiment_def env_down_def Math_random_def rng_const_def)

section \<open>Peer candidates and peer resolution\<close>

lemma peer_results_symbols: "map symbol (fst (peer_results e h peers g)) = peers"
proof (induction peers arbitrary: g)
  case Nil
  then show ?case by simp
next
  case (Cons tkr peers)
  obtain r g1 where a: "peer_result e h tkr g = (r, g1)" by (cases "peer_result e h tkr g")
  obtain rs g2 where b: "peer_results e h peers g1 = (rs, g2)" by (cases "peer_results e h peers g1")
  have "symbol (fst (peer_result e h tkr g)) = tkr"
    by (auto simp: peer_result_def Let_def Math_random_def split: sum.splits prod.splits)
  with a b Cons [of g1] show ?case by simp
qed

text \<open>
  C5, amended: a peer whose news fetch fails does not abort the ranking: every peer of the
  list gets an entry, and the failing one gets its symbol as name, the industry Unknown
  and the sentiment \<open>2r - 1\<close> for a random draw \<open>r\<close>, a value from -1 up to 1.
\<close>

theorem failed_peer_placeholder:
  assumes "fetchNews e h tkr 7 = Inl err" and "rng_valid g"
  shows "fst (peer_result e h tkr g)
           = \<lparr>symbol = tkr, name = tkr, peer_sentiment = draws g (pos g) * 2 - 1,
              industry = ''Unknown''\<rparr>
         \<and> - 1 \<le> peer_sentiment (fst (peer_result e h tkr g))
         \<and> peer_sentiment (fst (peer_result e h tkr g)) < 1
         \<and> map symbol (fst (peer_results e h peers g)) = peers"
proof -
  from assms(2) have d: "0 \<le> draws g (pos g)" "draws g (pos g) < 1" by (simp_all add: rng_valid_def)
  have v: "fst (peer_result e h tkr g)
           = \<lparr>symbol = tkr, name = tkr, peer_sentiment = draws g (pos g) * 2 - 1,
              industry = ''Unknown''\<rparr>"
    using assms(1) by (simp add: peer_result_def Let_def Math_random_def)
  show ?thesis unfolding v using d by (simp add: peer_results_symbols)
qed

theorem failed_peer_placeholder_witness:
  "fetchNews env_down host_1970 ''MSFT'' 7 = Inl (Error ''Failed to fetch news'')
   \<and> rng_valid (rng_const (3 / 4))
   \<and> fst (peer_result env_down host_1970 ''MSFT'' (rng_const (3 / 4)))
       = \<lparr>symbol = ''MSFT'', name = ''MSFT'', peer_sentiment = 1 / 2, industry = ''Unknown''\<rparr>
   \<and> map symbol (fst (peer_results env_down host_1970 [''MSFT'', ''IBM''] (rng_const (3 / 4))))
       = [''MSFT'', ''IBM'']"
proof -
  have a: "fetchNews env_down host_1970 ''MSFT'' 7 = Inl (Error ''Failed to fetch news'')"
    by (simp add: fetchNews_def env_down_def)
  have b: "rng_valid (rng_const (3 / 4))" by (rule rng_const_valid) simp_all
  from failed_peer_placeholder [OF a b, of "[''MSFT'', ''IBM'']"] a b show ?thesis
    by (simp add: rng_const_def)
qed

text \<open>
  C5, as stated, fails: with the news provider down, the same peer gets the sentiment 0.5
  under a draw of 0.75 and -0.5 under a draw of 0.25, neither of them the fixed value 0.
\<close>

theorem failed_peer_counterexample:
  "peer_sentiment (fst (peer_result env_down host_1970 ''MSFT'' (rng_const (3 / 4)))) = 1 / 2
   \<and> peer_sentiment (fst (peer_result env_down host_1970 ''MSFT'' (rng_const (1 / 4)))) = - (1 / 2)"
  by (simp add: peer_result_def Let_def fetchNews_def env_down_def Math_random_def rng_const_def)


section \<open>What the random draws do not change\<close>

lemma stock_price_error_same:
  "map_sum id (\<lambda>p. ()) (fst (stock_price h hdat bp d g))
     = map_sum id (\<lambda>p. ()) (fst (stock_price h hdat bp d g'))"
  by (auto simp: stock_price_def Math_random_def split: option.splits prod.splits)

lemma entry_row_projection:
  "map_sum id (\<lambda>r. (date r, avgSentiment r, volume r)) (fst (entry_row h hdat bp entry g))
     = map_sum id (\<lambda>r. (date r, avgSentiment r, volume r)) (fst (entry_row h hdat bp entry g'))"
proof -
  obtain d b where e: "entry = (d, b)" by (cases entry)
  obtain x g1 where a: "stock_price h hdat bp d g = (x, g1)" by (cases "stock_price h hdat bp d g")
  obtain x' g1' where a': "stock_price h hdat bp d g' = (x', g1')" by (cases "stock_price h hdat bp d g'")
  from stock_price_error_same [of h hdat bp d g g']
  have "map_sum id (\<lambda>p. ()) x = map_sum id (\<lambda>p. ()) x'" unfolding a a' by (simp only: fst_conv)
  with e a a' show ?thesis by (cases x; cases x') (simp_all add: entry_row_def)
qed

lemma entry_rows_projection:
  "map_sum id (map (\<lambda>r. (date r, avgSentiment r, volume r))) (fst (entry_rows h hdat bp dd g))
     = map_sum id (map (\<lambda>r. (date r, avgSentiment r, volume r))) (fst (entry_rows h hdat bp dd g'))"
proof (induction dd arbitrary: g g')
  case Nil
  then show ?case by simp
next
  case (Cons entry dd)
  obtain x g1 where a: "entry_row h hdat bp entry g = (x, g1)" by (cases "entry_row h hdat bp entry g")
  obtain x' g1' where a': "entry_row h hdat bp entry g' = (x', g1')" by (cases "entry_row h hdat bp entry g'")
  obtain y g2 where b: "entry_rows h hdat bp dd g1 = (y, g2)" by (cases "entry_rows h hdat bp dd g1")
  obtain y' g2' where b': "entry_rows h hdat bp dd g1' = (y', g2')" by (cases "entry_rows h hdat bp dd g1'")
  from entry_row_projection [of h hdat bp entry g g']
  have x: "map_sum id (\<lambda>r. (date r, avgSentiment r, volume r)) x
         = map_sum id (\<lambda>r. (date r, avgSentiment r, volume r)) x'"
    unfolding a a' by (simp only: fst_conv)
  from Cons [of g1 g1']
  have y: "map_sum id (map (\<lambda>r. (date r, avgSentiment r, volume r))) y
         = map_sum id (map (\<lambda>r. (date r, avgSentiment r, volume r))) y'"
    unfolding b b' by (simp only: fst_conv)
  from x y a a' b b' show ?case
    by (cases x; cases x'; cases y; cases y') simp_all
qed

lemma map_js_insert:
  assumes "\<And>a b. cmp a b = cmp' (f a) (f b)"
  shows "map f (js_insert cmp x ys) = js_insert cmp' (f x) (map f ys)"
  by (induction ys) (simp_all add: assms)

lemma map_js_sort:
  assumes "\<And>a b. cmp a b = cmp' (f a) (f b)"
  shows "map f (js_sort cmp xs) = js_sort cmp' (map f xs)"
  by (induction xs) (simp_all add: map_js_insert [of cmp cmp' f, OF assms])

lemma by_date_projection:
  "by_date h a b =
     (\<lambda>x y. case (parse_date h (fst x), parse_date h (fst y)) of
              (Some u, Some v) \<Rightarrow> real_of_int (u - v)
            | _ \<Rightarrow> 0)
       (date a, avgSentiment a, volume a) (date b, avgSentiment b, volume b)"
  by (simp add: by_date_def)

lemma processSentimentData_projection:
  "map_sum id (map (\<lambda>r. (date r, avgSentiment r, volume r)))
       (fst (processSentimentData e h stock news quote days g))
     = map_sum id (map (\<lambda>r. (date r, avgSentiment r, volume r)))
       (fst (processSentimentData e h stock news quote days g'))"
proof -
  let ?hd = "fetchHistoricalData e stock (range_from (getDateRange h days)) (range_to (getDateRange h days))"
  let ?dd = "collect_news h news days"
  let ?proj = "\<lambda>r. (date r, avgSentiment r, volume r)"
  obtain y g1 where b: "entry_rows h ?hd (quote_c quote) ?dd g = (y, g1)"
    by (cases "entry_rows h ?hd (quote_c quote) ?dd g")
  obtain y' g1' where b': "entry_rows h ?hd (quote_c quote) ?dd g' = (y', g1')"
    by (cases "entry_rows h ?hd (quote_c quote) ?dd g'")
  from entry_rows_projection [of h ?hd "quote_c quote" ?dd g g']
  have y: "map_sum id (map ?proj) y = map_sum id (map ?proj) y'"
    unfolding b b' by (simp only: fst_conv)
  have s: "\<And>rows. map ?proj (js_sort (by_date h) rows)
      = js_sort (\<lambda>x y. case (parse_date h (fst x), parse_date h (fst y)) of
              (Some u, Some v) \<Rightarrow> real_of_int (u - v)
            | _ \<Rightarrow> 0) (map ?proj rows)"
    by (rule map_js_sort) (rule by_date_projection)
  from y b b' show ?thesis
    by (cases y; cases y') (simp_all add: processSentimentData_def Let_def s)
qed

lemma analyzeSentiment_answered:
  assumes "classifier_api e txt = Json res"
  shows "fst (analyzeSentiment e txt g) = fst (analyzeSentiment e txt g')"
  using assms by (simp add: analyzeSentiment_def)

lemma attach_sentiments_answered:
  assumes "\<forall>txt. \<exists>res. classifier_api e txt = Json res"
  shows "fst (attach_sentiments e items g) = fst (attach_sentiments e items g')"
proof (induction items arbitrary: g g')
  case Nil
  then show ?case by simp
next
  case (Cons item items)
  obtain s g1 where a: "analyzeSentiment e (headline item) g = (s, g1)"
    by (cases "analyzeSentiment e (headline item) g")
  obtain s' g1' where a': "analyzeSentiment e (headline item) g' = (s', g1')"
    by (cases "analyzeSentiment e (headline item) g'")
  from assms obtain res where "classifier_api e (headline item) = Json res" by blast
  from analyzeSentiment_answered [OF this, of g g'] have s: "s = s'"
    unfolding a a' by (simp only: fst_conv)
  from Cons [of g1 g1'] a a' s show ?case
    by (cases "attach_sentiments e items g1"; cases "attach_sentiments e items g1'") simp
qed

lemma peer_result_answered:
  assumes "\<forall>txt. \<exists>res. classifier_api e txt = Json res"
    and "fetchNews e h tkr 7 = Inr ns"
  shows "fst (peer_result e h tkr g) = fst (peer_result e h tkr g')"
proof -
  from attach_sentiments_answered [OF assms(1), of "take 8 ns" g g']
  show ?thesis
    by (cases "attach_sentiments e (take 8 ns) g"; cases "attach_sentiments e (take 8 ns) g'")
       (simp add: peer_result_def Let_def assms(2))
qed

lemma peer_results_answered:
  assumes "\<forall>txt. \<exists>res. classifier_api e txt = Json res"
    and "\<forall>tkr. \<exists>ns. fetchNews e h tkr 7 = Inr ns"
  shows "fst (peer_results e h peers g) = fst (peer_results e h peers g')"
proof (induction peers arbitrary: g g')
  case Nil
  then show ?case by simp
next
  case (Cons tkr peers)
  obtain r g1 where a: "peer_result e h tkr g = (r, g1)" by (cases "peer_result e h tkr g")
  obtain r' g1' where a': "peer_result e h tkr g' = (r', g1')" by (cases "peer_result e h tkr g'")
  from assms(2) obtain ns where "fetchNews e h tkr 7 = Inr ns" by blast
  from peer_result_answered [OF assms(1) this, of g g'] have r: "r = r'"
    unfolding a a' by (simp only: fst_conv)
  from Cons [of g1 g1'] a a' r show ?case
    by (cases "peer_results e h peers g1"; cases "peer_results e h peers g1'") simp
qed

lemma findCompaniesBetterSentiment_answered:
  assumes "\<forall>txt. \<exists>res. classifier_api e txt = Json res"
    and "\<forall>tkr. \<exists>ns. fetchNews e h tkr 7 = Inr ns"
  shows "fst (findCompaniesBetterSentiment e h st tkr v g)
           = fst (findCompaniesBetterSentiment e h st tkr v g')"
proof (cases "fetchCompanyProfile e tkr")
  case None
  then show ?thesis by (simp add: findCompaniesBetterSentiment_def)
next
  case (Some profile)
  from peer_results_answered [OF assms, of "take 6 (fetchPeerCompanies e st tkr)" g g'] Some
  show ?thesis
    by (cases "peer_results e h (take 6 (fetchPeerCompanies e st tkr)) g";
        cases "peer_results e h (take 6 (fetchPeerCompanies e st tkr)) g'")
       (simp add: findCompaniesBetterSentiment_def Let_def)
qed

text \<open>
  C3, amended: two runs on the same frozen inputs, whatever their random draws, yield the
  same dates, average sentiments and volumes in the same order (or both fail); and they
  yield the same peer ranking when every peer's news fetch and every classifier call is
  answered. The stock prices are no part of the statement.
\<close>

theorem runs_agree_up_to_random_draws:
  "map_sum id (map (\<lambda>r. (date r, avgSentiment r, volume r)))
       (fst (processSentimentData e h stock news quote days g))
     = map_sum id (map (\<lambda>r. (date r, avgSentiment r, volume r)))
       (fst (processSentimentData e h stock news quote days g'))
   \<and> ((\<forall>txt. \<exists>res. classifier_api e txt = Json res)
       \<and> (\<forall>tkr. \<exists>ns. fetchNews e h tkr 7 = Inr ns)
       \<longrightarrow> fst (findCompaniesBetterSentiment e h st stock baseline g)
             = fst (findCompaniesBetterSentiment e h st stock baseline g'))"
  using processSentimentData_projection [of e h stock news quote days g g']
    findCompaniesBetterSentiment_answered [of e h st stock baseline g g']
  by blast

theorem runs_agree_up_to_random_draws_witness:
  "(\<forall>txt. \<exists>res. classifier_api env_live txt = Json res)
   \<and> (\<forall>tkr. \<exists>ns. fetchNews env_live host_2001 tkr 7 = Inr ns)
   \<and> map_sum id (map (\<lambda>r. (date r, avgSentiment r, volume r)))
       (fst (processSentimentData env_live host_2001 ''AAPL'' news_2001 quote_100 2 (rng_const (3 / 4))))
       = Inr [(''Jan 1'', 1 / 10, 2), (''Jan 2'', 0, 0), (''Jan 3'', 0, 0)]
   \<and> map_sum id (map (\<lambda>r. (date r, avgSentiment r, volume r)))
       (fst (processSentimentData env_live host_2001 ''AAPL'' news_2001 quote_100 2 (rng_const (1 / 4))))
       = Inr [(''Jan 1'', 1 / 10, 2), (''Jan 2'', 0, 0), (''Jan 3'', 0, 0)]
   \<and> fst (findCompaniesBetterSentiment env_live host_2001 None ''AAPL'' 0 (rng_const (3 / 4)))
       = fst (findCompaniesBetterSentiment env_live host_2001 None ''AAPL'' 0 (rng_const (1 / 4)))"
proof -
  have c: "\<forall>txt. \<exists>res. classifier_api env_live txt = Json res" by (simp add: env_live_def)
  have d: "\<forall>tkr. \<exists>ns. fetchNews env_live host_2001 tkr 7 = Inr ns"
    by (simp add: fetchNews_def env_live_def)
  have v: "map_sum id (map (\<lambda>r. (date r, avgSentiment r, volume r)))
       (fst (processSentimentData env_live host_2001 ''AAPL'' news_2001 quote_100 2 (rng_const (3 / 4))))
       = Inr [(''Jan 1'', 1 / 10, 2), (''Jan 2'', 0, 0), (''Jan 3'', 0, 0)]"
    by code_simp
  from runs_agree_up_to_random_draws [of env_live host_2001 "''AAPL''" news_2001 quote_100 2
         "rng_const (3 / 4)" "rng_const (1 / 4)" None 0] c d v
  show ?thesis by simp
qed

text \<open>
  C3, as stated, fails: a day without a historical close gets the quote scaled by a random
  factor. Without historical data the same news and quote give the prices 105 under draws
  of 0.75 and 95 under draws of 0.25; with the closes of 1 and 2 January 2001 supplied
  to both runs, the price of 3 January is 102.5 under the one and 97.5 under the other.
\<close>

theorem random_price_counterexample:
  "map_sum id (map stockPrice)
     (fst (processSentimentData env_down host_1970 ''AAPL'' news_jan1 quote_100 2 (rng_const (3 / 4))))
     = Inr [105, 105, 105]
   \<and> map_sum id (map stockPrice)
     (fst (processSentimentData env_down host_1970 ''AAPL'' news_jan1 quote_100 2 (rng_const (1 / 4))))
     = Inr [95, 95, 95]
   \<and> map_sum id (map stockPrice)
     (fst (processSentimentData env_live host_2001 ''AAPL'' news_2001 quote_100 2 (rng_const (3 / 4))))
     = Inr [120, 121, 205 / 2]
   \<and> map_sum id (map stockPrice)
     (fst (processSentimentData env_live host_2001 ''AAPL'' news_2001 quote_100 2 (rng_const (1 / 4))))
     = Inr [120, 121, 195 / 2]"
  by code_simp

section \<open>Peer resolution when the provider fails\<close>





section \<open>fetchData when the top-level fetch fails\<close>

lemma fetchData_catch_series:
  assumes "hist_aligned (fetchHistoricalData e (selectedStock s0)
             (range_from (getDateRange h (timeRange s0))) (range_to (getDateRange h (timeRange s0))))"
  shows "fst (fst (fetchData_catch e h s0 er s1 g)) = None
         \<and> error (snd (fst (fetchData_catch e h s0 er s1 g))) = Some (error_message er)
         \<and> length (sentimentData (snd (fst (fetchData_catch e h s0 er s1 g))))
             = card (day_key ` {local_day h (now h) - timeRange s0 .. local_day h (now h)})"
proof -
  obtain r0 g1 where m: "Math_random g = (r0, g1)" by (cases "Math_random g")
  let ?demoQuote = "\<lparr>quote_c = 150 + r0 * 50, quote_h = 180, quote_l = 140, quote_o = 155,
                          quote_pc = 148, quote_t = real_of_int (now h)\<rparr>"
  obtain demoNews g2 where n:
    "demo_items (selectedStock s0) (range_from (getDateRange h (timeRange s0)))
       [0 ..< nat (timeRange s0 * 3)] g1 = (demoNews, g2)"
    by (cases "demo_items (selectedStock s0) (range_from (getDateRange h (timeRange s0)))
       [0 ..< nat (timeRange s0 * 3)] g1")
  from processSentimentData_returns [OF assms, of demoNews ?demoQuote g2]
  obtain rows where p: "fst (processSentimentData e h (selectedStock s0) demoNews ?demoQuote
                               (timeRange s0) g2) = Inr rows" by blast
  from processSentimentData_length [OF p]
  have len: "length rows = card (day_key ` {local_day h (now h) - timeRange s0 .. local_day h (now h)})" .
  from p obtain g3 where p': "processSentimentData e h (selectedStock s0) demoNews ?demoQuote
                               (timeRange s0) g2 = (Inr rows, g3)"
    by (cases "processSentimentData e h (selectedStock s0) demoNews ?demoQuote (timeRange s0) g2") simp
  obtain peers prof g4 where f:
    "findCompaniesBetterSentiment e h (companyProfile s0) (selectedStock s0) 0.2 g3
       = ((peers, prof), g4)"
    by (cases "findCompaniesBetterSentiment e h (companyProfile s0) (selectedStock s0) 0.2 g3") auto
  show ?thesis
    unfolding fetchData_catch_def Let_def m prod.case n p' sum.case f
    using len by simp
qed

lemma fetchData_try_failed:
  assumes "fetchNews e h (selectedStock s) (timeRange s) = Inl er
           \<or> (\<exists>news. fetchNews e h (selectedStock s) (timeRange s) = Inr news)
              \<and> fetchStockQuote e (selectedStock s) = Inl er"
  shows "fetchData_try e h s g = (Inl (er, s), g)"
  using assms by (auto simp: fetchData_try_def)

lemma fetchData_try_succeeds:
  assumes "fetchNews e h (selectedStock s) (timeRange s) = Inr news"
    and "fetchStockQuote e (selectedStock s) = Inr quote"
    and "hist_aligned (fetchHistoricalData e (selectedStock s)
           (range_from (getDateRange h (timeRange s))) (range_to (getDateRange h (timeRange s))))"
  shows "\<exists>s1 g1. fetchData_try e h s g = (Inr s1, g1) \<and> error s1 = error s"
proof -
  obtain nws g1 where c: "attach_sentiments e news g = (nws, g1)"
    by (cases "attach_sentiments e news g")
  from processSentimentData_returns [OF assms(3), of nws quote g1]
  obtain rows where "fst (processSentimentData e h (selectedStock s) nws quote (timeRange s) g1) = Inr rows"
    by blast
  then obtain g2 where p: "processSentimentData e h (selectedStock s) nws quote (timeRange s) g1
      = (Inr rows, g2)"
    by (cases "processSentimentData e h (selectedStock s) nws quote (timeRange s) g1") simp
  obtain peers prof g3 where f:
    "findCompaniesBetterSentiment e h (companyProfile s) (selectedStock s) (overall_sentiment nws) g2
       = ((peers, prof), g3)"
    by (cases "findCompaniesBetterSentiment e h (companyProfile s) (selectedStock s)
                 (overall_sentiment nws) g2") auto
  show ?thesis
    unfolding fetchData_try_def Let_def assms(1,2) sum.case c prod.case
    by (simp add: p f)
qed

lemma fetchData_failed_series:
  assumes "hist_aligned (fetchHistoricalData e (selectedStock s)
             (range_from (getDateRange h (timeRange s))) (range_to (getDateRange h (timeRange s))))"
    and "fetchNews e h (selectedStock s) (timeRange s) = Inl er
           \<or> (\<exists>news. fetchNews e h (selectedStock s) (timeRange s) = Inr news)
              \<and> fetchStockQuote e (selectedStock s) = Inl er"
  shows "fst (fst (fetchData e h s g)) = None
         \<and> error (snd (fst (fetchData e h s g))) = Some (error_message er)
         \<and> length (sentimentData (snd (fst (fetchData e h s g))))
             = card (day_key ` {local_day h (now h) - timeRange s .. local_day h (now h)})"
proof -
  let ?s0 = "s\<lparr>loading := True, error := None, showSearchResults := False\<rparr>"
  from assms(2) have "fetchNews e h (selectedStock ?s0) (timeRange ?s0) = Inl er
           \<or> (\<exists>news. fetchNews e h (selectedStock ?s0) (timeRange ?s0) = Inr news)
              \<and> fetchStockQuote e (selectedStock ?s0) = Inl er" by simp
  then have t: "fetchData_try e h ?s0 g = (Inl (er, ?s0), g)" by (rule fetchData_try_failed)
  have "hist_aligned (fetchHistoricalData e (selectedStock ?s0)
             (range_from (getDateRange h (timeRange ?s0))) (range_to (getDateRange h (timeRange ?s0))))"
    using assms(1) by simp
  from fetchData_catch_series [OF this, where er = er and ?s1.0 = ?s0 and g = g]
  have c: "fst (fst (fetchData_catch e h ?s0 er ?s0 g)) = None"
    "error (snd (fst (fetchData_catch e h ?s0 er ?s0 g))) = Some (error_message er)"
    "length (sentimentData (snd (fst (fetchData_catch e h ?s0 er ?s0 g))))
       = card (day_key ` {local_day h (now h) - timeRange s .. local_day h (now h)})"
    by simp_all
  obtain u s2 g2 where k: "fetchData_catch e h ?s0 er ?s0 g = ((u, s2), g2)"
    by (cases "fetchData_catch e h ?s0 er ?s0 g") auto
  have "fetchData e h s g = ((u, s2\<lparr>loading := False\<rparr>), g2)"
    unfolding fetchData_def Let_def t prod.case sum.case k ..
  with c k show ?thesis by simp
qed

lemma fetchData_succeeded_clear:
  assumes "hist_aligned (fetchHistoricalData e (selectedStock s)
             (range_from (getDateRange h (timeRange s))) (range_to (getDateRange h (timeRange s))))"
    and "fetchNews e h (selectedStock s) (timeRange s) = Inr news"
    and "fetchStockQuote e (selectedStock s) = Inr quote"
  shows "error (snd (fst (fetchData e h s g))) = None"
proof -
  let ?s0 = "s\<lparr>loading := True, error := None, showSearchResults := False\<rparr>"
  have "fetchNews e h (selectedStock ?s0) (timeRange ?s0) = Inr news"
    "fetchStockQuote e (selectedStock ?s0) = Inr quote"
    "hist_aligned (fetchHistoricalData e (selectedStock ?s0)
             (range_from (getDateRange h (timeRange ?s0))) (range_to (getDateRange h (timeRange ?s0))))"
    using assms by simp_all
  from fetchData_try_succeeds [where h = h and g = g, OF this]
  obtain s1 g1 where t: "fetchData_try e h ?s0 g = (Inr s1, g1)" and e: "error s1 = None"
    by auto
  have "fetchData e h s g = ((None, s1\<lparr>loading := False\<rparr>), g1)"
    unfolding fetchData_def Let_def t prod.case sum.case ..
  with e show ?thesis by simp
qed

lemma entry_rows_throws:
  assumes "hist_t hdata = Some ts" and "hist_c hdata = Some cs"
    and "findIndex (same_locale_date h d) ts = Some i" and "length cs \<le> i"
  shows "d \<in> fst ` set dd \<Longrightarrow> fst (entry_rows h (Some hdata) bp dd g) = Inl TypeError"
proof (induction dd arbitrary: g)
  case Nil
  then show ?case by simp
next
  case (Cons entry dd)
  obtain d' b where e: "entry = (d', b)" by (cases entry)
  obtain x g1 where sp: "stock_price h (Some hdata) bp d' g = (x, g1)"
    by (cases "stock_price h (Some hdata) bp d' g")
  have only: "x = Inl TypeError" if "isl x"
    using that sp assms(1,2)
    by (auto simp: stock_price_def Math_random_def split: option.splits if_splits prod.splits)
  show ?case
  proof (cases x)
    case (Inl err)
    with only have "x = Inl TypeError" by simp
    with e sp show ?thesis by (simp add: entry_row_def)
  next
    case (Inr price)
    have "d' \<noteq> d"
    proof
      assume "d' = d"
      with sp assms have "x = Inl TypeError" by (simp add: stock_price_def)
      with Inr show False by simp
    qed
    with Cons.prems e have "d \<in> fst ` set dd" by auto
    from Cons.IH [OF this, of g1] have "fst (entry_rows h (Some hdata) bp dd g1) = Inl TypeError" .
    with e sp Inr show ?thesis
      by (cases "entry_rows h (Some hdata) bp dd g1") (simp add: entry_row_def)
  qed
qed

lemma processSentimentData_throws:
  assumes "fetchHistoricalData e stock (range_from (getDateRange h days)) (range_to (getDateRange h days))
             = Some hdata"
    and "hist_t hdata = Some ts" and "hist_c hdata = Some cs"
    and "n \<in> {local_day h (now h) - days .. local_day h (now h)}"
    and "findIndex (same_locale_date h (day_key n)) ts = Some i" and "length cs \<le> i"
  shows "fst (processSentimentData e h stock news quote days g) = Inl TypeError"
proof -
  have "day_key n \<in> fst ` set (collect_news h news days)"
    using collect_news_keys [of h news days] assms(4) by auto
  from entry_rows_throws [OF assms(2,3,5,6) this, of "quote_c quote" g]
  show ?thesis
    by (cases "entry_rows h (Some hdata) (quote_c quote) (collect_news h news days) g")
       (simp add: processSentimentData_def Let_def assms(1))
qed

lemma fetchData_catch_throws:
  assumes "\<And>news quote g. fst (processSentimentData e h (selectedStock s0) news quote (timeRange s0) g)
             = Inl TypeError"
  shows "fst (fst (fetchData_catch e h s0 er s1 g)) = Some TypeError
         \<and> sentimentData (snd (fst (fetchData_catch e h s0 er s1 g))) = sentimentData s1"
proof -
  obtain r0 g1 where m: "Math_random g = (r0, g1)" by (cases "Math_random g")
  let ?demoQuote = "\<lparr>quote_c = 150 + r0 * 50, quote_h = 180, quote_l = 140, quote_o = 155,
                          quote_pc = 148, quote_t = real_of_int (now h)\<rparr>"
  obtain demoNews g2 where n:
    "demo_items (selectedStock s0) (range_from (getDateRange h (timeRange s0)))
       [0 ..< nat (timeRange s0 * 3)] g1 = (demoNews, g2)"
    by (cases "demo_items (selectedStock s0) (range_from (getDateRange h (timeRange s0)))
       [0 ..< nat (timeRange s0 * 3)] g1")
  from assms [of demoNews ?demoQuote g2]
  obtain g3 where p': "processSentimentData e h (selectedStock s0) demoNews ?demoQuote
                               (timeRange s0) g2 = (Inl TypeError, g3)"
    by (cases "processSentimentData e h (selectedStock s0) demoNews ?demoQuote (timeRange s0) g2") simp
  show ?thesis
    unfolding fetchData_catch_def Let_def m prod.case n p' sum.case
    by simp
qed

lemma fetchData_failed_throws:
  assumes "fetchHistoricalData e (selectedStock s)
             (range_from (getDateRange h (timeRange s))) (range_to (getDateRange h (timeRange s)))
             = Some hdata"
    and "hist_t hdata = Some ts" and "hist_c hdata = Some cs"
    and "n \<in> {local_day h (now h) - timeRange s .. local_day h (now h)}"
    and "findIndex (same_locale_date h (day_key n)) ts = Some i" and "length cs \<le> i"
    and "fetchNews e h (selectedStock s) (timeRange s) = Inl er
           \<or> (\<exists>news. fetchNews e h (selectedStock s) (timeRange s) = Inr news)
              \<and> fetchStockQuote e (selectedStock s) = Inl er"
  shows "fst (fst (fetchData e h s g)) = Some TypeError
         \<and> sentimentData (snd (fst (fetchData e h s g))) = sentimentData s"
proof -
  let ?s0 = "s\<lparr>loading := True, error := None, showSearchResults := False\<rparr>"
  from assms(7) have "fetchNews e h (selectedStock ?s0) (timeRange ?s0) = Inl er
           \<or> (\<exists>news. fetchNews e h (selectedStock ?s0) (timeRange ?s0) = Inr news)
              \<and> fetchStockQuote e (selectedStock ?s0) = Inl er" by simp
  then have t: "fetchData_try e h ?s0 g = (Inl (er, ?s0), g)" by (rule fetchData_try_failed)
  have th: "\<And>news quote g. fst (processSentimentData e h (selectedStock ?s0) news quote
                                     (timeRange ?s0) g) = Inl TypeError"
    using processSentimentData_throws [OF assms(1-6)] by simp
  from fetchData_catch_throws [where ?s0.0 = ?s0, OF th, of er ?s0 g]
  have c: "fst (fst (fetchData_catch e h ?s0 er ?s0 g)) = Some TypeError"
    "sentimentData (snd (fst (fetchData_catch e h ?s0 er ?s0 g))) = sentimentData s"
    by simp_all
  obtain u s2 g2 where k: "fetchData_catch e h ?s0 er ?s0 g = ((u, s2), g2)"
    by (cases "fetchData_catch e h ?s0 er ?s0 g") auto
  have "fetchData e h s g = ((u, s2\<lparr>loading := False\<rparr>), g2)"
    unfolding fetchData_def Let_def t prod.case sum.case k ..
  with c k show ?thesis by simp
qed

text \<open>
  C4, amended: for a requested window of at most 365 days (the offered 1, 7, 14 and 30
  days are) and a candle response that is absent or aligned, when the top-level news or
  quote fetch fails \<open>fetchData\<close> returns normally, the state carries the message of the
  failure in \<open>error\<close> (the fixed text of the failed request for a failure status, the
  message of the rejection otherwise; the message of one of the two when both fail) and
  the synthetic daily series has one row per day of the window; when both fetches are
  answered, \<open>error\<close> is clear.
\<close>

theorem fetch_failure_is_flagged:
  assumes "0 \<le> timeRange s" and "timeRange s \<le> 364"
    and "hist_aligned (fetchHistoricalData e (selectedStock s)
           (range_from (getDateRange h (timeRange s))) (range_to (getDateRange h (timeRange s))))"
  shows "(\<forall>m. (news_api e (selectedStock s) (range_from (getDateRange h (timeRange s)))
                  (range_to (getDateRange h (timeRange s))) = Rejected m
                \<or> news_api e (selectedStock s) (range_from (getDateRange h (timeRange s)))
                     (range_to (getDateRange h (timeRange s))) = NotOk
                   \<and> m = ''Failed to fetch news'')
               \<and> (\<exists>q. quote_api e (selectedStock s) = Json q)
              \<or> (\<exists>data. news_api e (selectedStock s) (range_from (getDateRange h (timeRange s)))
                           (range_to (getDateRange h (timeRange s))) = Json data)
                 \<and> (quote_api e (selectedStock s) = Rejected m
                    \<or> quote_api e (selectedStock s) = NotOk \<and> m = ''Failed to fetch stock quote'')
            \<longrightarrow> fst (fst (fetchData e h s g)) = None
                \<and> error (snd (fst (fetchData e h s g))) = Some m
                \<and> length (sentimentData (snd (fst (fetchData e h s g)))) = nat (timeRange s) + 1)
         \<and> (\<forall>m m'. (news_api e (selectedStock s) (range_from (getDateRange h (timeRange s)))
                  (range_to (getDateRange h (timeRange s))) = Rejected m
                \<or> news_api e (selectedStock s) (range_from (getDateRange h (timeRange s)))
                     (range_to (getDateRange h (timeRange s))) = NotOk
                   \<and> m = ''Failed to fetch news'')
               \<and> (quote_api e (selectedStock s) = Rejected m'
                    \<or> quote_api e (selectedStock s) = NotOk \<and> m' = ''Failed to fetch stock quote'')
            \<longrightarrow> fst (fst (fetchData e h s g)) = None
                \<and> (error (snd (fst (fetchData e h s g))) = Some m
                    \<or> error (snd (fst (fetchData e h s g))) = Some m')
                \<and> length (sentimentData (snd (fst (fetchData e h s g)))) = nat (timeRange s) + 1)
         \<and> ((\<exists>data. news_api e (selectedStock s) (range_from (getDateRange h (timeRange s)))
                       (range_to (getDateRange h (timeRange s))) = Json data)
             \<and> (\<exists>q. quote_api e (selectedStock s) = Json q)
            \<longrightarrow> error (snd (fst (fetchData e h s g))) = None)"
proof -
  let ?news = "news_api e (selectedStock s) (range_from (getDateRange h (timeRange s)))
                (range_to (getDateRange h (timeRange s)))"
  have card: "card (day_key ` {local_day h (now h) - timeRange s .. local_day h (now h)})
      = nat (timeRange s) + 1"
  proof -
    have "card (day_key ` {local_day h (now h) - timeRange s .. local_day h (now h)})
        = card {local_day h (now h) - timeRange s .. local_day h (now h)}"
      using assms(2) by (intro card_image day_key_inj_on)
    then show ?thesis using assms(1) by simp
  qed
  have flagged: "fst (fst (fetchData e h s g)) = None
                \<and> error (snd (fst (fetchData e h s g))) = Some m
                \<and> length (sentimentData (snd (fst (fetchData e h s g)))) = nat (timeRange s) + 1"
    if fail: "fetchNews e h (selectedStock s) (timeRange s) = Inl (Error m)
           \<or> (\<exists>news. fetchNews e h (selectedStock s) (timeRange s) = Inr news)
              \<and> fetchStockQuote e (selectedStock s) = Inl (Error m)"
    for m
    using fetchData_failed_series [OF assms(3) fail, of g] card
    by (simp add: error_message_def)
  have one: "fst (fst (fetchData e h s g)) = None
                \<and> error (snd (fst (fetchData e h s g))) = Some m
                \<and> length (sentimentData (snd (fst (fetchData e h s g)))) = nat (timeRange s) + 1"
    if f: "(?news = Rejected m \<or> ?news = NotOk \<and> m = ''Failed to fetch news'')
               \<and> (\<exists>q. quote_api e (selectedStock s) = Json q)
              \<or> (\<exists>data. ?news = Json data)
                 \<and> (quote_api e (selectedStock s) = Rejected m
                    \<or> quote_api e (selectedStock s) = NotOk \<and> m = ''Failed to fetch stock quote'')"
    for m
  proof -
    from f have "fetchNews e h (selectedStock s) (timeRange s) = Inl (Error m)
           \<or> (\<exists>news. fetchNews e h (selectedStock s) (timeRange s) = Inr news)
              \<and> fetchStockQuote e (selectedStock s) = Inl (Error m)"
      by (auto simp: fetchNews_def fetchStockQuote_def)
    then show ?thesis by (rule flagged)
  qed
  have both: "fst (fst (fetchData e h s g)) = None
                \<and> (error (snd (fst (fetchData e h s g))) = Some m
                    \<or> error (snd (fst (fetchData e h s g))) = Some m')
                \<and> length (sentimentData (snd (fst (fetchData e h s g)))) = nat (timeRange s) + 1"
    if f: "(?news = Rejected m \<or> ?news = NotOk \<and> m = ''Failed to fetch news'')
               \<and> (quote_api e (selectedStock s) = Rejected m'
                    \<or> quote_api e (selectedStock s) = NotOk \<and> m' = ''Failed to fetch stock quote'')"
    for m m'
  proof -
    from f have "fetchNews e h (selectedStock s) (timeRange s) = Inl (Error m)
           \<or> (\<exists>news. fetchNews e h (selectedStock s) (timeRange s) = Inr news)
              \<and> fetchStockQuote e (selectedStock s) = Inl (Error m)"
      by (auto simp: fetchNews_def)
    from flagged [OF this] show ?thesis by simp
  qed
  have answered: "error (snd (fst (fetchData e h s g))) = None"
    if "(\<exists>data. ?news = Json data) \<and> (\<exists>q. quote_api e (selectedStock s) = Json q)"
  proof -
    from that obtain data q where "?news = Json data" and "quote_api e (selectedStock s) = Json q"
      by blast
    then have "fetchNews e h (selectedStock s) (timeRange s)
               = Inr (take 50 (filter (\<lambda>item. headline item \<noteq> []) data))"
      and "fetchStockQuote e (selectedStock s) = Inr q"
      by (simp_all add: fetchNews_def fetchStockQuote_def)
    with assms(3) show ?thesis by (rule fetchData_succeeded_clear)
  qed
  from one both answered show ?thesis by blast
qed

theorem fetch_failure_is_flagged_witness:
  "0 \<le> timeRange initial_state \<and> timeRange initial_state \<le> 364
   \<and> hist_aligned (fetchHistoricalData (env_live\<lparr>news_api := (\<lambda>s f t. NotOk)\<rparr>)
        (selectedStock initial_state)
        (range_from (getDateRange host_2001 (timeRange initial_state)))
        (range_to (getDateRange host_2001 (timeRange initial_state))))
   \<and> news_api (env_live\<lparr>news_api := (\<lambda>s f t. NotOk)\<rparr>) (selectedStock initial_state)
        (range_from (getDateRange host_2001 (timeRange initial_state)))
        (range_to (getDateRange host_2001 (timeRange initial_state))) = NotOk
   \<and> quote_api (env_live\<lparr>news_api := (\<lambda>s f t. NotOk)\<rparr>) (selectedStock initial_state)
        = Json quote_100
   \<and> fst (fst (fetchData (env_live\<lparr>news_api := (\<lambda>s f t. NotOk)\<rparr>) host_2001 initial_state
                  (rng_const (3 / 4)))) = None
   \<and> error (snd (fst (fetchData (env_live\<lparr>news_api := (\<lambda>s f t. NotOk)\<rparr>) host_2001
                         initial_state (rng_const (3 / 4))))) = Some ''Failed to fetch news''
   \<and> length (sentimentData (snd (fst (fetchData (env_live\<lparr>news_api := (\<lambda>s f t. NotOk)\<rparr>)
                                          host_2001 initial_state (rng_const (3 / 4)))))) = 8"
proof -
  let ?e = "env_live\<lparr>news_api := (\<lambda>s f t. NotOk)\<rparr>"
  have a: "0 \<le> timeRange initial_state" and b: "timeRange initial_state \<le> 364"
    by (simp_all add: initial_state_def)
  have c: "hist_aligned (fetchHistoricalData ?e (selectedStock initial_state)
        (range_from (getDateRange host_2001 (timeRange initial_state)))
        (range_to (getDateRange host_2001 (timeRange initial_state))))"
    by (simp add: hist_aligned_def fetchHistoricalData_def env_live_def)
  have d: "news_api ?e (selectedStock initial_state)
        (range_from (getDateRange host_2001 (timeRange initial_state)))
        (range_to (getDateRange host_2001 (timeRange initial_state))) = NotOk"
    by simp
  have q: "quote_api ?e (selectedStock initial_state) = Json quote_100"
    by (simp add: env_live_def)
  have n: "nat (timeRange initial_state) + 1 = 8" by (simp add: initial_state_def)
  from fetch_failure_is_flagged [OF a b c, where g = "rng_const (3 / 4)"] d q
  have "fst (fst (fetchData ?e host_2001 initial_state (rng_const (3 / 4)))) = None
        \<and> error (snd (fst (fetchData ?e host_2001 initial_state (rng_const (3 / 4)))))
            = Some ''Failed to fetch news''
        \<and> length (sentimentData (snd (fst (fetchData ?e host_2001 initial_state
                                              (rng_const (3 / 4))))))
            = nat (timeRange initial_state) + 1"
    by blast
  with a b c d q n show ?thesis by simp
qed

text \<open>
  C4, as stated, fails: with every fetch failing and a candle response that has a time
  for 1 January 2001 but no close, the \<open>catch\<close> block itself throws a TypeError and no
  series is stored for the requested 7 days; and with every fetch failing and a requested
  window of 365 days, from 1 January 1970 to 1 January 1971, the stored synthetic series
  has 365 rows for 366 days.
\<close>

theorem fetch_failure_counterexample:
  "fst (fst (fetchData env_misaligned host_2001 initial_state (rng_const (3 / 4)))) = Some TypeError
   \<and> sentimentData (snd (fst (fetchData env_misaligned host_2001 initial_state
                                  (rng_const (3 / 4))))) = []
   \<and> length (sentimentData (snd (fst (fetchData env_down host_1971
                                          (initial_state\<lparr>timeRange := 365\<rparr>)
                                          (rng_const (3 / 4)))))) = 365"
proof -
  have hd: "fetchHistoricalData env_misaligned (selectedStock initial_state)
              (range_from (getDateRange host_2001 (timeRange initial_state)))
              (range_to (getDateRange host_2001 (timeRange initial_state)))
            = Some \<lparr>hist_t = Some [11323 * 86400], hist_c = Some []\<rparr>"
    by (simp add: fetchHistoricalData_def env_misaligned_def env_down_def)
  have w: "(11323::int) \<in> {local_day host_2001 (now host_2001) - timeRange initial_state
                             .. local_day host_2001 (now host_2001)}"
    by (simp add: local_day_def host_2001_def initial_state_def)
  have i: "findIndex (same_locale_date host_2001 (day_key 11323)) [11323 * 86400] = Some 0"
    by code_simp
  have fail0: "fetchNews env_misaligned host_2001 (selectedStock initial_state)
                 (timeRange initial_state) = Inl (Error ''Failed to fetch news'')
           \<or> (\<exists>news. fetchNews env_misaligned host_2001 (selectedStock initial_state)
                          (timeRange initial_state) = Inr news)
              \<and> fetchStockQuote env_misaligned (selectedStock initial_state)
                   = Inl (Error ''Failed to fetch news'')"
    by (simp add: fetchNews_def env_misaligned_def env_down_def)
  from fetchData_failed_throws [OF hd _ _ w i _ fail0, of "[]" "rng_const (3 / 4)"]
  have a: "fst (fst (fetchData env_misaligned host_2001 initial_state (rng_const (3 / 4))))
             = Some TypeError"
    and b: "sentimentData (snd (fst (fetchData env_misaligned host_2001 initial_state
                                  (rng_const (3 / 4))))) = []"
    by (simp_all add: initial_state_def)
  let ?s = "initial_state\<lparr>timeRange := 365\<rparr>"
  have al: "hist_aligned (fetchHistoricalData env_down (selectedStock ?s)
             (range_from (getDateRange host_1971 (timeRange ?s)))
             (range_to (getDateRange host_1971 (timeRange ?s))))"
    by (rule env_down_aligned)
  have fail: "fetchNews env_down host_1971 (selectedStock ?s) (timeRange ?s)
                = Inl (Error ''Failed to fetch news'')
           \<or> (\<exists>news. fetchNews env_down host_1971 (selectedStock ?s) (timeRange ?s) = Inr news)
              \<and> fetchStockQuote env_down (selectedStock ?s) = Inl (Error ''Failed to fetch news'')"
    by (simp add: fetchNews_def env_down_def)
  have today: "local_day host_1971 (now host_1971) = 365"
    by (simp add: local_day_def host_1971_def)
  from fetchData_failed_series [OF al fail, of "rng_const (3 / 4)"] today year_1970_keys
  have c: "length (sentimentData (snd (fst (fetchData env_down host_1971 ?s (rng_const (3 / 4))))))
             = 365"
    by simp
  from a b c show ?thesis by blast
qed

end
